theory Spec2Isabelle
  imports Complex_Main "HOL-Library.Sublist" "HOL-Library.AList"
begin

section \<open>ReList Pro: the capture, enhance, analyze, persist pipeline\<close>

text \<open>
  The development embeds two source files: the Express routes (\<^verbatim>\<open>generateUKPricing\<close> and
  the handlers registered by \<^verbatim>\<open>registerRoutes\<close>) and the upload screen
  (\<^verbatim>\<open>UploadScreen\<close> with \<^verbatim>\<open>addImageFromResult\<close>, \<^verbatim>\<open>capturePhoto\<close>,
  \<^verbatim>\<open>pickFromGallery\<close>, \<^verbatim>\<open>removeImage\<close> and \<^verbatim>\<open>proceedToAnalyze\<close>).

  Conventions. JavaScript strings are \<^typ>\<open>string\<close>; a nullable value is an \<^typ>\<open>'a option\<close>;
  JavaScript numbers are idealised as \<^typ>\<open>real\<close>; every value that the platform supplies
  (a fresh UUID, the clock, \<^verbatim>\<open>Math.random()\<close>, the answer of a remote service) is an explicit
  argument; every \<^verbatim>\<open>throw\<close> is the \<open>Inl\<close> branch of a sum; React state is a record that
  is passed in and returned.
\<close>

subsection \<open>JavaScript values\<close>

text \<open>What \<^verbatim>\<open>JSON.parse\<close> can return. An absent property (\<^verbatim>\<open>undefined\<close>) is \<open>None\<close>.\<close>

datatype jsval =
    JNull
  | JBool bool
  | JNum real
  | JStr string
  | JArr "jsval list"
  | JObj "(string \<times> jsval) list"

text \<open>An exception object: the optional \<^verbatim>\<open>status\<close> of an API error and its \<^verbatim>\<open>message\<close>.\<close>

record js_exn =
  status :: "int option"
  message :: string

definition Error :: "string \<Rightarrow> js_exn" where
  "Error msg = \<lparr>status = None, message = msg\<rparr>"

text \<open>Truthiness, as tested by \<^verbatim>\<open>if (v)\<close>, \<^verbatim>\<open>!v\<close>, \<^verbatim>\<open>v || d\<close> and \<^verbatim>\<open>filter(Boolean)\<close>.\<close>

fun truthy :: "jsval \<Rightarrow> bool" where
  "truthy JNull = False"
| "truthy (JBool b) = b"
| "truthy (JNum x) = (x \<noteq> 0)"
| "truthy (JStr s) = (s \<noteq> [])"
| "truthy (JArr xs) = True"
| "truthy (JObj kvs) = True"

text \<open>Truthiness of a nullable string: neither \<^verbatim>\<open>null\<close>/\<^verbatim>\<open>undefined\<close> nor \<^verbatim>\<open>""\<close>.\<close>

fun truthy_str :: "string option \<Rightarrow> bool" where
  "truthy_str None = False"
| "truthy_str (Some s) = (s \<noteq> [])"

text \<open>
  \<^verbatim>\<open>v.key\<close> for the property names this program reads (none of them is an index,
  \<^verbatim>\<open>length\<close> or a prototype member): a \<^verbatim>\<open>TypeError\<close> on \<^verbatim>\<open>null\<close>, the own property of
  an object, \<^verbatim>\<open>undefined\<close> on every other value. The wording of the message is V8's.
\<close>

definition get_prop :: "jsval \<Rightarrow> string \<Rightarrow> js_exn + jsval option" where
  "get_prop v key =
     (case v of
        JNull \<Rightarrow> Inl (Error (''Cannot read properties of null (reading '' @ [CHR 0x27] @ key @ [CHR 0x27] @ '')''))
      | JObj kvs \<Rightarrow> Inr (map_of kvs key)
      | _ \<Rightarrow> Inr None)"

text \<open>\<^verbatim>\<open>v || d\<close> where \<open>v\<close> is a property that may be absent.\<close>

fun or_default :: "jsval option \<Rightarrow> jsval \<Rightarrow> jsval" where
  "or_default None d = d"
| "or_default (Some v) d = (if truthy v then v else d)"

text \<open>Decimal digits of an index, for the property names of arrays and strings.\<close>

fun digits_of :: "nat \<Rightarrow> string" where
  "digits_of n =
     (if n < 10 then [''0123456789'' ! n]
      else digits_of (n div 10) @ [''0123456789'' ! (n mod 10)])"

declare digits_of.simps [simp del]

text \<open>
  A string holds the UTF-8 bytes of its text. The characters that JavaScript indexes are the
  UTF-16 code units: a code point of one, two or three bytes is one code unit, and a code
  point of four bytes is a pair of surrogates, each written here with the three bytes that
  the scheme of UTF-8 gives to its number.
\<close>

definition utf8_len :: "char \<Rightarrow> nat" where
  "utf8_len c =
     (if (of_char c :: nat) < 0x80 then 1
      else if (of_char c :: nat) < 0xE0 then 2
      else if (of_char c :: nat) < 0xF0 then 3
      else 4)"

definition utf8_3 :: "nat \<Rightarrow> string" where
  "utf8_3 n = [char_of (0xE0 + n div 4096), char_of (0x80 + n div 64 mod 64), char_of (0x80 + n mod 64)]"

fun units_of_point :: "string \<Rightarrow> string list" where
  "units_of_point [b1, b2, b3, b4] =
     (let v = (of_char b1 mod 8) * 262144 + (of_char b2 mod 64) * 4096
              + (of_char b3 mod 64) * 64 + of_char b4 mod 64 - (65536 :: nat)
      in [utf8_3 (0xD800 + v div 1024), utf8_3 (0xDC00 + v mod 1024)])"
| "units_of_point p = [p]"

function code_units :: "string \<Rightarrow> string list" where
  "code_units [] = []"
| "code_units (c # cs) =
     units_of_point (take (utf8_len c) (c # cs)) @ code_units (drop (utf8_len c) (c # cs))"
  by pat_completeness auto
termination
  by (relation "measure length") (simp_all add: utf8_len_def)

text \<open>
  The own enumerable properties copied by an object spread \<^verbatim>\<open>{...v}\<close>: the entries of an
  object, the indexed elements of an array, the indexed characters of a string, nothing for
  a number, a boolean or \<^verbatim>\<open>null\<close>.
\<close>

fun own_entries :: "jsval \<Rightarrow> (string \<times> jsval) list" where
  "own_entries (JObj kvs) = kvs"
| "own_entries (JArr xs) = map (\<lambda>i. (digits_of i, xs ! i)) [0 ..< length xs]"
| "own_entries (JStr s) =
     map (\<lambda>i. (digits_of i, JStr (code_units s ! i))) [0 ..< length (code_units s)]"
| "own_entries v = []"

text \<open>
  Writing properties into an object literal in order: a name that is already present keeps
  its place and takes the new value, a new name is appended.
\<close>

definition spread :: "(string \<times> jsval) list \<Rightarrow> (string \<times> jsval) list \<Rightarrow> (string \<times> jsval) list" where
  "spread acc entries = foldl (\<lambda>a kv. AList.update (fst kv) (snd kv) a) acc entries"

subsection \<open>Strings\<close>

text \<open>
  \<^verbatim>\<open>toLowerCase\<close>, as far as the ASCII characters of its result go. These come from the
  ASCII capitals, from the Kelvin sign U+212A, whose lower case is \<^verbatim>\<open>k\<close>, and from the
  dotted capital I U+0130, whose lower case is \<^verbatim>\<open>i\<close> followed by the combining dot U+0307.
  Every other character outside ASCII has its lower case outside ASCII and is left as it
  is: the keys that are looked for in the result are ASCII.
\<close>

definition lower_char :: "char \<Rightarrow> char" where
  "lower_char c =
     (case map_of (zip ''ABCDEFGHIJKLMNOPQRSTUVWXYZ'' ''abcdefghijklmnopqrstuvwxyz'') c of
        Some l \<Rightarrow> l
      | None \<Rightarrow> c)"

fun toLowerCase :: "string \<Rightarrow> string" where
  "toLowerCase [] = []"
| "toLowerCase (c # cs) =
     (if prefix [CHR 0xE2, CHR 0x84, CHR 0xAA] (c # cs) then CHR ''k'' # toLowerCase (drop 2 cs)
      else if prefix [CHR 0xC4, CHR 0xB0] (c # cs)
      then [CHR ''i'', CHR 0xCC, CHR 0x87] @ toLowerCase (drop 1 cs)
      else lower_char c # toLowerCase cs)"

text \<open>\<^verbatim>\<open>s.includes(key)\<close>: \<open>key\<close> occurs in \<open>s\<close> as a contiguous substring.\<close>

fun str_includes :: "string \<Rightarrow> string \<Rightarrow> bool" where
  "str_includes [] key = (key = [])"
| "str_includes (c # cs) key = (prefix key (c # cs) \<or> str_includes cs key)"

subsection \<open>Pricing: \<^verbatim>\<open>generateUKPricing\<close>\<close>

record pricing =
  quickSellPrice :: int
  maxProfitPrice :: int
  sellProbability :: int

definition brandPrices :: "(string \<times> real) list" where
  "brandPrices =
     [(''nike'', 22), (''adidas'', 20), (''zara'', 12), (''h&m'', 8), (''gucci'', 95),
      (''prada'', 85), (''ralph lauren'', 30), (''levi'', 18), (''uniqlo'', 10), (''gap'', 9),
      (''north face'', 35), (''patagonia'', 40), (''carhartt'', 28), (''tommy hilfiger'', 25),
      (''superdry'', 16), (''primark'', 5), (''asos'', 8), (''river island'', 10),
      (''topshop'', 12), (''ted baker'', 25), (''burberry'', 75), (''barbour'', 45)]"

definition conditionMultipliers :: "(string \<times> real) list" where
  "conditionMultipliers =
     [(''new with tags'', 1.0), (''like new'', 0.85), (''very good'', 0.7), (''good'', 0.55),
      (''satisfactory'', 0.4)]"

text \<open>
  The two \<^verbatim>\<open>for ... of Object.entries(table)\<close> loops: the value of the first key, in the
  order of the table, that the text includes; the initial value when the loop never breaks.
\<close>

fun first_match :: "string \<Rightarrow> (string \<times> real) list \<Rightarrow> real \<Rightarrow> real" where
  "first_match text [] dflt = dflt"
| "first_match text ((key, v) # rest) dflt =
     (if str_includes text key then v else first_match text rest dflt)"

text \<open>
  \<open>r1\<close> and \<open>r2\<close> are the results of the two calls of \<^verbatim>\<open>Math.random()\<close>, in the order of
  evaluation. \<^verbatim>\<open>Math.round\<close> rounds a half up, as \<^const>\<open>round\<close> does.
\<close>

definition generateUKPricing :: "string \<Rightarrow> string \<Rightarrow> real \<Rightarrow> real \<Rightarrow> pricing" where
  "generateUKPricing brand condition r1 r2 =
     (let brandKey = toLowerCase brand;
          basePrice = first_match brandKey brandPrices 15;
          condMult = first_match (toLowerCase condition) conditionMultipliers 0.7;
          maxProfit = max 3 (round (basePrice * condMult + r1 * 5));
          quickSell = max 2 (round (of_int maxProfit * 0.65 :: real));
          baseProbability =
            min 99 (max 15 (round (60 * condMult + r2 * 20 + (if basePrice > 20 then 10 else 0))))
      in \<lparr>quickSellPrice = quickSell, maxProfitPrice = maxProfit,
          sellProbability = baseProbability\<rparr>)"

subsection \<open>The analysis endpoints\<close>

text \<open>
  Cleaning the model's text before it is parsed:
  \<^verbatim>\<open>.replace(/```json\n?/g, "").replace(/```\n?/g, "").trim()\<close>.
  \<open>strip_fence pat\<close> deletes, from left to right, every occurrence of \<open>pat\<close> together with
  one line feed that follows it. \<open>trim\<close> removes the white space and the line terminators
  of ECMAScript at both ends, each given by its UTF-8 bytes: these are the
  code points U+0009 to U+000D, U+0020, U+00A0, U+1680, U+2000 to U+200A, U+2028, U+2029,
  U+202F, U+205F, U+3000 and U+FEFF.
\<close>

fun drop_nl :: "string \<Rightarrow> string" where
  "drop_nl [] = []"
| "drop_nl (c # cs) = (if c = CHR 0x0A then cs else c # cs)"

function strip_fence :: "string \<Rightarrow> string \<Rightarrow> string" where
  "strip_fence pat [] = []"
| "strip_fence pat (c # cs) =
     (if pat \<noteq> [] \<and> prefix pat (c # cs)
      then strip_fence pat (drop_nl (drop (length pat) (c # cs)))
      else c # strip_fence pat cs)"
  by pat_completeness auto
termination
proof (relation "measure (\<lambda>(pat, s). length s)")
  show "wf (measure (\<lambda>(pat, s). length s))"
    by simp
next
  fix pat :: string and c :: char and cs :: string
  assume "pat \<noteq> [] \<and> prefix pat (c # cs)"
  then have "0 < length pat"
    by simp
  then have "length (drop (length pat) (c # cs)) < length (c # cs)"
    by simp
  moreover have "length (drop_nl t) \<le> length t" for t
    by (cases t) auto
  then have "length (drop_nl (drop (length pat) (c # cs))) \<le> length (drop (length pat) (c # cs))" .
  ultimately have "length (drop_nl (drop (length pat) (c # cs))) < length (c # cs)"
    by linarith
  then show "((pat, drop_nl (drop (length pat) (c # cs))), pat, c # cs)
      \<in> measure (\<lambda>(pat, s). length s)"
    by simp
next
  fix pat :: string and c :: char and cs :: string
  show "((pat, cs), pat, c # cs) \<in> measure (\<lambda>(pat, s). length s)"
    by simp
qed

definition white_space :: "string list" where
  "white_space =
     [[CHR 0x09], [CHR 0x0A], [CHR 0x0B], [CHR 0x0C], [CHR 0x0D], [CHR 0x20],
      [CHR 0xC2, CHR 0xA0], [CHR 0xE1, CHR 0x9A, CHR 0x80],
      [CHR 0xE2, CHR 0x80, CHR 0x80], [CHR 0xE2, CHR 0x80, CHR 0x81],
      [CHR 0xE2, CHR 0x80, CHR 0x82], [CHR 0xE2, CHR 0x80, CHR 0x83],
      [CHR 0xE2, CHR 0x80, CHR 0x84], [CHR 0xE2, CHR 0x80, CHR 0x85],
      [CHR 0xE2, CHR 0x80, CHR 0x86], [CHR 0xE2, CHR 0x80, CHR 0x87],
      [CHR 0xE2, CHR 0x80, CHR 0x88], [CHR 0xE2, CHR 0x80, CHR 0x89],
      [CHR 0xE2, CHR 0x80, CHR 0x8A], [CHR 0xE2, CHR 0x80, CHR 0xA8],
      [CHR 0xE2, CHR 0x80, CHR 0xA9], [CHR 0xE2, CHR 0x80, CHR 0xAF],
      [CHR 0xE2, CHR 0x81, CHR 0x9F], [CHR 0xE3, CHR 0x80, CHR 0x80],
      [CHR 0xEF, CHR 0xBB, CHR 0xBF]]"

text \<open>
  \<open>strip_leading ws\<close> removes from the front, as long as it can, one of the byte sequences
  \<open>ws\<close>.
\<close>

function strip_leading :: "string list \<Rightarrow> string \<Rightarrow> string" where
  "strip_leading ws [] = []"
| "strip_leading ws (c # cs) =
     (case find (\<lambda>w. w \<noteq> [] \<and> prefix w (c # cs)) ws of
        Some w \<Rightarrow> strip_leading ws (drop (length w) (c # cs))
      | None \<Rightarrow> c # cs)"
  by pat_completeness auto
termination
proof (relation "measure (\<lambda>(ws, s). length s)")
  show "wf (measure (\<lambda>(ws, s). length s))"
    by simp
next
  fix ws :: "string list" and c :: char and cs w :: string
  assume "find (\<lambda>w. w \<noteq> [] \<and> prefix w (c # cs)) ws = Some w"
  then have "w \<noteq> []"
    by (auto simp: find_Some_iff)
  then have "length (drop (length w) (c # cs)) < length (c # cs)"
    by simp
  then show "((ws, drop (length w) (c # cs)), ws, c # cs) \<in> measure (\<lambda>(ws, s). length s)"
    by simp
qed

definition trim :: "string \<Rightarrow> string" where
  "trim s = rev (strip_leading (map rev white_space) (rev (strip_leading white_space s)))"

definition clean_content :: "string \<Rightarrow> string" where
  "clean_content content = trim (strip_fence ''```'' (strip_fence ''```json'' content))"

text \<open>
  One server-sent event, the object that is written after \<^verbatim>\<open>data: \<close>:
  \<^verbatim>\<open>{delta?, result?, error?, done}\<close>. An absent \<^verbatim>\<open>done\<close> reads as false.
\<close>

record sse_data =
  ev_delta :: "string option"
  ev_result :: "jsval option"
  ev_error :: "string option"
  ev_done :: bool

definition delta_event :: "string \<Rightarrow> sse_data" where
  "delta_event delta = \<lparr>ev_delta = Some delta, ev_result = None, ev_error = None, ev_done = False\<rparr>"

definition error_event :: "string \<Rightarrow> sse_data" where
  "error_event msg = \<lparr>ev_delta = None, ev_result = None, ev_error = Some msg, ev_done = True\<rparr>"

definition result_event :: "jsval \<Rightarrow> sse_data" where
  "result_event r = \<lparr>ev_delta = None, ev_result = Some r, ev_error = None, ev_done = True\<rparr>"

text \<open>
  The request body. \<^verbatim>\<open>imageBase64\<close> is read by the non-streaming endpoint only.
\<close>

record request_body =
  body_imageBase64 :: "string option"
  body_images :: "string list option"
  body_apiKey :: "string option"

text \<open>
  What the remote completion service does, as seen by the handler: the call
  \<^verbatim>\<open>openai.chat.completions.create\<close> throws, or it returns. In streaming mode it returns
  chunks, each with the nullable \<^verbatim>\<open>choices[0]?.delta?.content\<close>, and the iteration ends
  normally (\<open>None\<close>) or by an exception. In plain mode it returns the nullable
  \<^verbatim>\<open>choices[0]?.message?.content\<close>.
\<close>

datatype completion_stream =
    CreateThrows js_exn
  | ChunkStream "string option list" "js_exn option"

datatype completion =
    CompletionThrows js_exn
  | Completion "string option"

datatype http_response =
    JsonResponse int jsval
  | EventStream "sse_data list"

text \<open>
  The \<^verbatim>\<open>for await (const chunk of stream)\<close> loop: \<open>(fullContent, events written)\<close>.
\<close>

fun consume_chunks :: "string option list \<Rightarrow> string \<times> sse_data list \<Rightarrow> string \<times> sse_data list" where
  "consume_chunks [] acc = acc"
| "consume_chunks (chunk # rest) (fullContent, written) =
     (let delta = (case chunk of Some d \<Rightarrow> d | None \<Rightarrow> [])
      in consume_chunks rest
           (if delta \<noteq> [] then (fullContent @ delta, written @ [delta_event delta])
            else (fullContent, written)))"

text \<open>
  The call \<^verbatim>\<open>generateUKPricing(parsed.brand || "", parsed.condition || "")\<close> on values of
  any type: \<^verbatim>\<open>brand.toLowerCase()\<close> is evaluated first and throws a \<^verbatim>\<open>TypeError\<close>
  unless \<open>brand\<close> is a string, then \<^verbatim>\<open>condition.toLowerCase()\<close> in the first round of the
  second loop.
\<close>

definition js_generateUKPricing :: "jsval \<Rightarrow> jsval \<Rightarrow> real \<Rightarrow> real \<Rightarrow> js_exn + pricing" where
  "js_generateUKPricing brand condition r1 r2 =
     (case brand of
        JStr b \<Rightarrow>
          (case condition of
             JStr c \<Rightarrow> Inr (generateUKPricing b c r1 r2)
           | _ \<Rightarrow> Inl (Error ''condition.toLowerCase is not a function''))
      | _ \<Rightarrow> Inl (Error ''brand.toLowerCase is not a function''))"

definition pricing_entries :: "pricing \<Rightarrow> (string \<times> jsval) list" where
  "pricing_entries p =
     [(''quickSellPrice'', JNum (of_int (quickSellPrice p))),
      (''maxProfitPrice'', JNum (of_int (maxProfitPrice p))),
      (''sellProbability'', JNum (of_int (sellProbability p)))]"

text \<open>
  Both handlers continue in the same way once the text is parsed: the pricing, then
  \<^verbatim>\<open>{...parsed, ...pricing, suggestedPrice: pricing.maxProfitPrice}\<close>.
\<close>

definition build_result :: "jsval \<Rightarrow> real \<Rightarrow> real \<Rightarrow> js_exn + jsval" where
  "build_result parsed r1 r2 =
     (case get_prop parsed ''brand'' of
        Inl err \<Rightarrow> Inl err
      | Inr brand \<Rightarrow>
     (case get_prop parsed ''condition'' of
        Inl err \<Rightarrow> Inl err
      | Inr condition \<Rightarrow>
     (case js_generateUKPricing (or_default brand (JStr [])) (or_default condition (JStr [])) r1 r2 of
        Inl err \<Rightarrow> Inl err
      | Inr p \<Rightarrow>
          Inr (JObj (spread (spread (spread [] (own_entries parsed)) (pricing_entries p))
                 [(''suggestedPrice'', JNum (of_int (maxProfitPrice p)))])))))"

text \<open>The message computed by the outer \<^verbatim>\<open>catch\<close> of both handlers.\<close>

definition failure_message :: "js_exn \<Rightarrow> string" where
  "failure_message err =
     (if status err = Some 401 then ''Invalid API key''
      else if message err \<noteq> [] then message err
      else ''Analysis failed'')"

text \<open>\<^verbatim>\<open>err?.status || 500\<close>.\<close>

definition failure_status :: "js_exn \<Rightarrow> int" where
  "failure_status err = (case status err of Some st \<Rightarrow> (if st \<noteq> 0 then st else 500) | None \<Rightarrow> 500)"

definition missing_input :: jsval where
  "missing_input = JObj [(''error'', JStr ''At least one image and API key are required'')]"

text \<open>
  \<^verbatim>\<open>POST /api/analyze-stream\<close>. \<open>parse\<close> is \<^verbatim>\<open>JSON.parse\<close> (\<open>None\<close> when it throws), \<open>r1\<close>
  and \<open>r2\<close> are the random numbers drawn by the pricing, \<open>ai\<close> is the behaviour of the
  completion service. The headers are flushed before the service is called, so every
  exception from there on is reported as an event. The construction of the prompt does not
  influence the control flow and is left out.
\<close>

definition analyze_stream ::
  "(string \<Rightarrow> jsval option) \<Rightarrow> real \<Rightarrow> real \<Rightarrow> completion_stream \<Rightarrow> request_body \<Rightarrow> http_response" where
  "analyze_stream parse r1 r2 ai body =
     (let imageList = (case body_images body of Some l \<Rightarrow> l | None \<Rightarrow> [])
      in if imageList = [] \<or> \<not> truthy_str (body_apiKey body)
         then JsonResponse 400 missing_input
         else
           (case ai of
              CreateThrows err \<Rightarrow> EventStream [error_event (failure_message err)]
            | ChunkStream chunks ending \<Rightarrow>
                (case consume_chunks chunks ([], []) of
                   (fullContent, written) \<Rightarrow>
                (case ending of
                   Some err \<Rightarrow> EventStream (written @ [error_event (failure_message err)])
                 | None \<Rightarrow>
                     (case parse (clean_content fullContent) of
                        None \<Rightarrow> EventStream (written @ [error_event ''Failed to parse AI response''])
                      | Some parsed \<Rightarrow>
                          (case build_result parsed r1 r2 of
                             Inl err \<Rightarrow> EventStream (written @ [error_event (failure_message err)])
                           | Inr finalResult \<Rightarrow>
                               EventStream (written @ [result_event finalResult])))))))"

text \<open>\<^verbatim>\<open>POST /api/analyze\<close>, the non-streaming endpoint.\<close>

definition analyze ::
  "(string \<Rightarrow> jsval option) \<Rightarrow> real \<Rightarrow> real \<Rightarrow> completion \<Rightarrow> request_body \<Rightarrow> http_response" where
  "analyze parse r1 r2 ai body =
     (let imageList =
            (case body_images body of
               Some l \<Rightarrow> l
             | None \<Rightarrow>
                 (case body_imageBase64 body of
                    Some b \<Rightarrow> (if b \<noteq> [] then [b] else [])
                  | None \<Rightarrow> []))
      in if imageList = [] \<or> \<not> truthy_str (body_apiKey body)
         then JsonResponse 400 missing_input
         else
           (case ai of
              CompletionThrows err \<Rightarrow>
                JsonResponse (failure_status err) (JObj [(''error'', JStr (failure_message err))])
            | Completion c \<Rightarrow>
                (let content = (case c of Some t \<Rightarrow> t | None \<Rightarrow> [])
                 in case parse (clean_content content) of
                      None \<Rightarrow> JsonResponse 500 (JObj [(''error'', JStr ''Failed to parse AI response'')])
                    | Some parsed \<Rightarrow>
                        (case build_result parsed r1 r2 of
                           Inl err \<Rightarrow>
                             JsonResponse (failure_status err)
                               (JObj [(''error'', JStr (failure_message err))])
                         | Inr finalResult \<Rightarrow> JsonResponse 200 finalResult))))"

subsection \<open>The upload screen: session state\<close>

datatype step = Capture | Enhancing | Review | Analyzing | Result

record image_item =
  item_id :: string
  originalUri :: string
  originalBase64 :: "string option"
  enhancedUri :: "string option"
  enhancedBase64 :: "string option"
  enhancing :: bool
  enhanceFailed :: bool

text \<open>
  \<^verbatim>\<open>ListingDraft\<close>. The listing fields are copied from the parsed result without any
  conversion, so at run time they hold JavaScript values of any type.
\<close>

record listing_draft =
  draft_id :: string
  draft_imageUri :: string
  draft_imageUris :: "string list"
  draft_brand :: jsval
  draft_category :: jsval
  draft_title :: jsval
  draft_material :: jsval
  draft_condition :: jsval
  draft_conditionScore :: jsval
  draft_flaws :: jsval
  draft_description :: jsval
  draft_sellProbability :: jsval
  draft_quickSellPrice :: jsval
  draft_maxProfitPrice :: jsval
  draft_suggestedPrice :: jsval
  draft_createdAt :: int

text \<open>
  The React state of \<^verbatim>\<open>UploadScreen\<close>. \<^verbatim>\<open>useEnhanced\<close> is a
  \<^verbatim>\<open>Record<string, boolean>\<close>: an association list read with \<^const>\<open>map_of\<close>.
\<close>

record session =
  step :: step
  images :: "image_item list"
  selectedIdx :: nat
  useEnhanced :: "(string \<times> bool) list"
  result :: "listing_draft option"
  error :: "string option"
  streamingText :: string

definition MAX_IMAGES :: nat where
  "MAX_IMAGES = 5"

definition initial_session :: session where
  "initial_session =
     \<lparr>step = Capture, images = [], selectedIdx = 0, useEnhanced = [], result = None,
      error = None, streamingText = []\<rparr>"

subsection \<open>Adding images\<close>

text \<open>
  The answer of \<^verbatim>\<open>POST /api/enhance\<close> as \<^verbatim>\<open>addImageFromResult\<close> sees it:
  \<^verbatim>\<open>apiRequest\<close> or \<^verbatim>\<open>res.json()\<close> throws, or the body carries the nullable
  \<^verbatim>\<open>enhancedBase64\<close> and \<^verbatim>\<open>convertedOriginal\<close>.
\<close>

datatype enhance_response =
    EnhanceThrows
  | EnhanceData "string option" "string option"

text \<open>\<^verbatim>\<open>v || null\<close> on a nullable string.\<close>

definition or_null :: "string option \<Rightarrow> string option" where
  "or_null v = (if truthy_str v then v else None)"

definition mark_failed :: "string \<Rightarrow> image_item list \<Rightarrow> image_item list" where
  "mark_failed ident imgs =
     map (\<lambda>img. if item_id img = ident then img\<lparr>enhancing := False, enhanceFailed := True\<rparr> else img) imgs"

text \<open>
  \<^verbatim>\<open>addImageFromResult\<close> up to its \<^verbatim>\<open>await\<close>. \<open>cstep\<close> is the \<^verbatim>\<open>step\<close> captured by
  the callback, \<open>ident\<close> the value of \<^verbatim>\<open>Crypto.randomUUID()\<close>.
\<close>

definition addImageFromResult_begin ::
  "step \<Rightarrow> string \<Rightarrow> string \<Rightarrow> string option \<Rightarrow> session \<Rightarrow> session" where
  "addImageFromResult_begin cstep ident uri base64 s =
     (let newItem =
            \<lparr>item_id = ident, originalUri = uri, originalBase64 = base64, enhancedUri = None,
             enhancedBase64 = None, enhancing = truthy_str base64, enhanceFailed = False\<rparr>;
          s1 = s\<lparr>images := images s @ [newItem],
                 selectedIdx := (if cstep = Capture then 0 else selectedIdx s),
                 useEnhanced := AList.update ident True (useEnhanced s)\<rparr>
      in if \<not> truthy_str base64
         then s1\<lparr>images := mark_failed ident (images s1)\<rparr>
         else s1)"

text \<open>
  \<^verbatim>\<open>addImageFromResult\<close> after the \<^verbatim>\<open>await\<close>, for an image that has bytes: the
  \<^verbatim>\<open>try\<close> block when the answer carries enhanced data, the \<^verbatim>\<open>catch\<close> block otherwise.
\<close>

definition addImageFromResult_settle ::
  "string \<Rightarrow> string \<Rightarrow> enhance_response \<Rightarrow> session \<Rightarrow> session" where
  "addImageFromResult_settle ident base64 resp s =
     (let failed = s\<lparr>images := mark_failed ident (images s),
                     useEnhanced := AList.update ident False (useEnhanced s)\<rparr>
      in case resp of
           EnhanceThrows \<Rightarrow> failed
         | EnhanceData enhanced converted \<Rightarrow>
             (case enhanced of
                None \<Rightarrow> failed
              | Some e \<Rightarrow>
                  if e = [] then failed
                  else
                    s\<lparr>images :=
                        map (\<lambda>img.
                               if item_id img = ident
                               then img\<lparr>originalBase64 :=
                                          Some (if truthy_str converted then the converted else base64),
                                        enhancedBase64 := Some e,
                                        enhancedUri := Some (''data:image/jpeg;base64,'' @ e),
                                        enhancing := False\<rparr>
                               else img)
                          (images s)\<rparr>))"

definition addImageFromResult ::
  "step \<Rightarrow> string \<Rightarrow> string \<Rightarrow> string option \<Rightarrow> enhance_response \<Rightarrow> session \<Rightarrow> session" where
  "addImageFromResult cstep ident uri base64 resp s =
     (let s1 = addImageFromResult_begin cstep ident uri base64 s
      in case base64 of
           None \<Rightarrow> s1
         | Some b \<Rightarrow> if b = [] then s1 else addImageFromResult_settle ident b resp s1)"

text \<open>
  The outcomes of the two handlers that add images. \<open>CapacityExceeded\<close> is the return after
  the alert \<^verbatim>\<open>Limit Reached\<close>; \<open>PickerFailed\<close> is an exception of a platform call, which
  is logged and changes nothing.
\<close>

datatype add_outcome = CapacityExceeded | PermissionDenied | NothingPicked | PickerFailed | Added

datatype camera_result =
    CameraThrows
  | CameraCanceled
  | Captured string "string option"

text \<open>
  \<^verbatim>\<open>capturePhoto\<close>. \<open>granted\<close> is the answer to the permission request, \<open>cam\<close> what the
  camera returns, \<open>ident\<close> and \<open>resp\<close> the UUID and the enhancement answer for the new image.
\<close>

definition capturePhoto ::
  "bool \<Rightarrow> camera_result \<Rightarrow> string \<Rightarrow> enhance_response \<Rightarrow> session \<Rightarrow> add_outcome \<times> session" where
  "capturePhoto granted cam ident resp s =
     (if length (images s) \<ge> MAX_IMAGES then (CapacityExceeded, s)
      else if \<not> granted then (PermissionDenied, s)
      else
        (case cam of
           CameraThrows \<Rightarrow> (PickerFailed, s)
         | CameraCanceled \<Rightarrow> (NothingPicked, s)
         | Captured uri base64 \<Rightarrow>
             (let s1 = addImageFromResult (step s) ident uri (or_null base64) resp s
              in (Added, if step s = Capture then s1\<lparr>step := Review\<rparr> else s1))))"

text \<open>
  One asset returned by the gallery, with the UUID and the enhancement answer that its
  \<^verbatim>\<open>addImageFromResult\<close> call will meet: \<open>(ident, uri, base64, resp)\<close>.
\<close>

type_synonym picked_asset = "string \<times> string \<times> string option \<times> enhance_response"

datatype gallery_result =
    GalleryThrows
  | GalleryCanceled
  | Picked "picked_asset list"

fun add_assets :: "step \<Rightarrow> picked_asset list \<Rightarrow> session \<Rightarrow> session" where
  "add_assets cstep [] s = s"
| "add_assets cstep ((ident, uri, base64, resp) # rest) s =
     add_assets cstep rest (addImageFromResult cstep ident uri (or_null base64) resp s)"

text \<open>
  \<^verbatim>\<open>pickFromGallery\<close>. The picker is asked for at most \<open>remaining\<close> assets
  (\<^verbatim>\<open>selectionLimit\<close>); the handler adds every asset that comes back.
\<close>

definition pickFromGallery :: "gallery_result \<Rightarrow> session \<Rightarrow> add_outcome \<times> session" where
  "pickFromGallery gallery s =
     (let remaining = int MAX_IMAGES - int (length (images s))
      in if remaining \<le> 0 then (CapacityExceeded, s)
         else
           (case gallery of
              GalleryThrows \<Rightarrow> (PickerFailed, s)
            | GalleryCanceled \<Rightarrow> (NothingPicked, s)
            | Picked assets \<Rightarrow>
                if assets = [] then (NothingPicked, s)
                else
                  (let s1 = add_assets (step s) assets s
                   in (Added, if step s = Capture then s1\<lparr>step := Review\<rparr> else s1))))"

subsection \<open>Starting the analysis: \<^verbatim>\<open>proceedToAnalyze\<close>\<close>

text \<open>
  \<^verbatim>\<open>buffer.split("\n")\<close>: the pieces between the line feeds, at least one.
\<close>

fun split_lf :: "string \<Rightarrow> string list" where
  "split_lf [] = [[]]"
| "split_lf (c # cs) =
     (if c = CHR 0x0A then [] # split_lf cs
      else (case split_lf cs of
              [] \<Rightarrow> [[c]]
            | l # ls \<Rightarrow> (c # l) # ls))"

text \<open>
  What \<^verbatim>\<open>fetch\<close> gives: it throws; the response is not \<^verbatim>\<open>ok\<close> and has the body text
  \<open>errText\<close>; the response has no body reader; or the reader delivers the decoded chunks of
  the body one after the other and then reports the end (\<open>None\<close>) or throws.
\<close>

datatype fetch_result =
    FetchThrows js_exn
  | NotOk string
  | NoReader
  | Body "string list" "js_exn option"

text \<open>
  The value of \<^verbatim>\<open>JSON.parse\<close> on the text of a data line, as the loop sees it.
  \<open>ParsedNull\<close> is the value \<^verbatim>\<open>null\<close>, on which the first property read,
  \<^verbatim>\<open>data.error\<close>, throws a \<^verbatim>\<open>TypeError\<close>. \<open>ParsedEvent d\<close> is any other value, given by
  the four properties that the loop reads; on a number, a string, a boolean or an array the
  four reads give \<^verbatim>\<open>undefined\<close>, which is the event without properties. \<open>ev_done\<close> is the
  truthiness of \<^verbatim>\<open>done\<close>, \<open>ev_result\<close> is the value of \<^verbatim>\<open>result\<close>, and \<open>ev_error\<close> and
  \<open>ev_delta\<close> are the texts of \<^verbatim>\<open>error\<close> and \<^verbatim>\<open>delta\<close>: the loop uses these two only
  through their truthiness and through the strings that \<^verbatim>\<open>new Error(data.error)\<close> and
  \<^verbatim>\<open>prev + data.delta\<close> make of them, so a falsy one is \<open>None\<close> (or the empty string) and a
  truthy one is that string, which is the value itself in the events written by the
  endpoints of this repository.
\<close>

datatype parsed =
    ParsedNull
  | ParsedEvent sse_data

text \<open>
  The surroundings of one call: the stored key (\<^verbatim>\<open>getApiKey()\<close>), the network, the UUID
  and the clock used for the draft, whether \<^verbatim>\<open>saveDraft\<close> throws, \<^verbatim>\<open>JSON.parse\<close> on the
  text of a data line (\<open>None\<close> when it throws its \<^verbatim>\<open>SyntaxError\<close>), and the message that
  the engine gives to the \<^verbatim>\<open>TypeError\<close> of reading a property of \<^verbatim>\<open>null\<close>.
\<close>

record analyze_env =
  apiKey :: "string option"
  fetch :: "request_body \<Rightarrow> fetch_result"
  draftId :: string
  now :: int
  saveDraft :: "listing_draft \<Rightarrow> js_exn option"
  jsonParse :: "string \<Rightarrow> parsed option"
  nullReadMessage :: string

text \<open>
  How a call ends. \<open>NoImages\<close> is the silent return on an empty list,
  \<open>EnhancementPending\<close> the return after the alert \<^verbatim>\<open>Still Processing\<close>,
  \<open>MissingCredential\<close> the return after the request to set the key, \<open>NoValidImages\<close> the
  return inside the \<^verbatim>\<open>try\<close> block when no image has bytes, \<open>AnalysisFailed\<close> the
  \<^verbatim>\<open>catch\<close> block with the message of the exception, \<open>Completed\<close> the end of the
  \<^verbatim>\<open>try\<close> block.
\<close>

datatype outcome =
    NoImages
  | EnhancementPending
  | MissingCredential
  | NoValidImages
  | AnalysisFailed string
  | Completed listing_draft

text \<open>
  The observable effect of one call: how it ended, the state afterwards, the request bodies
  that were sent and the drafts that were stored.
\<close>

record run =
  outcome :: outcome
  after :: session
  requests :: "request_body list"
  saved :: "listing_draft list"

definition anyEnhancing :: "session \<Rightarrow> bool" where
  "anyEnhancing s = list_ex enhancing (images s)"

text \<open>
  \<^verbatim>\<open>images.map((img) => img.originalBase64).filter(Boolean)\<close>.
\<close>

definition originalImages :: "session \<Rightarrow> string list" where
  "originalImages s =
     concat (map (\<lambda>b. case b of Some t \<Rightarrow> (if t \<noteq> [] then [t] else []) | None \<Rightarrow> [])
               (map originalBase64 (images s)))"

text \<open>
  The body of the inner \<^verbatim>\<open>try\<close> for a parsed event, on the pair of the streaming text
  and \<^verbatim>\<open>finalResult\<close>.
\<close>

definition handle_data :: "sse_data \<Rightarrow> string \<times> jsval option \<Rightarrow> js_exn + string \<times> jsval option" where
  "handle_data d acc =
     (case acc of (txt, fin) \<Rightarrow>
        (case ev_error d of
           Some e \<Rightarrow>
             if e \<noteq> [] then Inl (Error e)
             else Inr (case ev_delta d of Some t \<Rightarrow> txt @ t | None \<Rightarrow> txt,
                       if ev_done d \<and> (case ev_result d of Some r \<Rightarrow> truthy r | None \<Rightarrow> False)
                       then ev_result d else fin)
         | None \<Rightarrow>
             Inr (case ev_delta d of Some t \<Rightarrow> txt @ t | None \<Rightarrow> txt,
                  if ev_done d \<and> (case ev_result d of Some r \<Rightarrow> truthy r | None \<Rightarrow> False)
                  then ev_result d else fin)))"

text \<open>
  The inner \<^verbatim>\<open>catch\<close>: an exception is thrown on only if its message is not empty and
  does not contain \<^verbatim>\<open>JSON\<close>; otherwise the line is given up and the loop goes on.
\<close>

definition inner_catch ::
  "js_exn + string \<times> jsval option \<Rightarrow> string \<times> jsval option \<Rightarrow> js_exn + string \<times> jsval option" where
  "inner_catch attempt acc =
     (case attempt of
        Inl err \<Rightarrow>
          if message err \<noteq> [] \<and> \<not> str_includes (message err) ''JSON'' then Inl err
          else Inr acc
      | Inr acc' \<Rightarrow> Inr acc')"

text \<open>An event object inside the \<^verbatim>\<open>try\<close> and its \<^verbatim>\<open>catch\<close>.\<close>

definition process_event :: "sse_data \<Rightarrow> string \<times> jsval option \<Rightarrow> js_exn + string \<times> jsval option" where
  "process_event d acc = inner_catch (handle_data d acc) acc"

text \<open>
  A parsed value inside the \<^verbatim>\<open>try\<close> and its \<^verbatim>\<open>catch\<close>: on \<^verbatim>\<open>null\<close> the read of
  \<^verbatim>\<open>data.error\<close> throws the \<^verbatim>\<open>TypeError\<close>.
\<close>

definition process_parsed ::
  "analyze_env \<Rightarrow> parsed \<Rightarrow> string \<times> jsval option \<Rightarrow> js_exn + string \<times> jsval option" where
  "process_parsed env p acc =
     (case p of
        ParsedNull \<Rightarrow> inner_catch (Inl (Error (nullReadMessage env))) acc
      | ParsedEvent d \<Rightarrow> process_event d acc)"

text \<open>
  One line: only a line that starts with \<^verbatim>\<open>data: \<close> is looked at, and
  \<^verbatim>\<open>JSON.parse(line.slice(6))\<close> is inside the \<^verbatim>\<open>try\<close>. Its \<^verbatim>\<open>SyntaxError\<close> carries the
  word \<^verbatim>\<open>JSON\<close> in its message and is dropped by the \<^verbatim>\<open>catch\<close>.
\<close>

definition process_line ::
  "analyze_env \<Rightarrow> string \<Rightarrow> string \<times> jsval option \<Rightarrow> js_exn + string \<times> jsval option" where
  "process_line env line acc =
     (if prefix ''data: '' line
      then (case jsonParse env (drop 6 line) of
              None \<Rightarrow> Inr acc
            | Some p \<Rightarrow> process_parsed env p acc)
      else Inr acc)"

text \<open>
  The \<^verbatim>\<open>for (const line of lines)\<close> loop. An exception leaves it; the streaming text set so
  far stays in the state.
\<close>

fun process_lines ::
  "analyze_env \<Rightarrow> string list \<Rightarrow> string \<times> jsval option
     \<Rightarrow> js_exn \<times> string + string \<times> jsval option" where
  "process_lines env [] acc = Inr acc"
| "process_lines env (line # rest) acc =
     (case process_line env line acc of
        Inl err \<Rightarrow> Inl (err, fst acc)
      | Inr acc' \<Rightarrow> process_lines env rest acc')"

text \<open>
  The \<^verbatim>\<open>while (true)\<close> loop over the chunks that the reader delivers: the chunk is appended
  to the buffer, the buffer is split at the line feeds, the last piece
  (\<^verbatim>\<open>lines.pop() || ""\<close>) is the new buffer and the other pieces are processed.
\<close>

fun read_loop ::
  "analyze_env \<Rightarrow> string list \<Rightarrow> string \<Rightarrow> string \<times> jsval option
     \<Rightarrow> js_exn \<times> string + string \<times> jsval option" where
  "read_loop env [] buffer acc = Inr acc"
| "read_loop env (chunk # rest) buffer acc =
     (let lines = split_lf (buffer @ chunk)
      in case process_lines env (butlast lines) acc of
           Inl failure \<Rightarrow> Inl failure
         | Inr acc' \<Rightarrow> read_loop env rest (last lines) acc')"

text \<open>
  From \<^verbatim>\<open>fetch\<close> to the test of \<^verbatim>\<open>finalResult\<close>: the exception thrown or the final
  result, together with the streaming text.
\<close>

definition receive :: "analyze_env \<Rightarrow> fetch_result \<Rightarrow> (js_exn + jsval) \<times> string" where
  "receive env response =
     (case response of
        FetchThrows err \<Rightarrow> (Inl err, [])
      | NotOk errText \<Rightarrow> (Inl (Error (if errText \<noteq> [] then errText else ''Analysis failed'')), [])
      | NoReader \<Rightarrow> (Inl (Error ''Streaming not supported''), [])
      | Body chunks ending \<Rightarrow>
          (case read_loop env chunks [] ([], None) of
             Inl (err, txt) \<Rightarrow> (Inl err, txt)
           | Inr (txt, fin) \<Rightarrow>
               (case ending of
                  Some err \<Rightarrow> (Inl err, txt)
                | None \<Rightarrow>
                    (case fin of
                       None \<Rightarrow> (Inl (Error ''No result received from AI''), txt)
                     | Some finalResult \<Rightarrow> (Inr finalResult, txt)))))"

text \<open>
  \<^verbatim>\<open>use && img.enhancedUri ? img.enhancedUri : img.originalUri\<close> with
  \<^verbatim>\<open>use = useEnhanced[img.id]\<close>.
\<close>

definition chosen_uri :: "(string \<times> bool) list \<Rightarrow> image_item \<Rightarrow> string" where
  "chosen_uri flags img =
     (case enhancedUri img of
        Some u \<Rightarrow> if map_of flags (item_id img) = Some True \<and> u \<noteq> [] then u else originalUri img
      | None \<Rightarrow> originalUri img)"

text \<open>
  \<^verbatim>\<open>finalResult.key\<close>. \<^verbatim>\<open>finalResult\<close> is truthy, hence not \<^verbatim>\<open>null\<close>, and the read
  does not throw.
\<close>

definition read_field :: "jsval \<Rightarrow> string \<Rightarrow> jsval option" where
  "read_field v key = (case v of JObj kvs \<Rightarrow> map_of kvs key | _ \<Rightarrow> None)"

text \<open>
  The draft. Reading \<^verbatim>\<open>images[0].id\<close> throws on an empty list.
\<close>

definition build_draft :: "analyze_env \<Rightarrow> session \<Rightarrow> jsval \<Rightarrow> js_exn + listing_draft" where
  "build_draft env s finalResult =
     (case images s of
        [] \<Rightarrow> Inl (Error ''Cannot read properties of undefined (reading 'id')'')
      | primaryImg # _ \<Rightarrow>
          Inr \<lparr>draft_id = draftId env,
               draft_imageUri = chosen_uri (useEnhanced s) primaryImg,
               draft_imageUris = map (chosen_uri (useEnhanced s)) (images s),
               draft_brand = or_default (read_field finalResult ''brand'') (JStr ''Unknown''),
               draft_category = or_default (read_field finalResult ''category'') (JStr ''Clothing''),
               draft_title = or_default (read_field finalResult ''title'') (JStr ''Untitled''),
               draft_material = or_default (read_field finalResult ''material'') (JStr ''Unknown''),
               draft_condition = or_default (read_field finalResult ''condition'') (JStr ''Good''),
               draft_conditionScore =
                 or_default (read_field finalResult ''conditionScore'')
                   (or_default (read_field finalResult ''condition'') (JStr ''Good'')),
               draft_flaws =
                 or_default (read_field finalResult ''flaws'') (JStr ''No visible flaws detected''),
               draft_description = or_default (read_field finalResult ''description'') (JStr []),
               draft_sellProbability = or_default (read_field finalResult ''sellProbability'') (JNum 50),
               draft_quickSellPrice = or_default (read_field finalResult ''quickSellPrice'') (JNum 5),
               draft_maxProfitPrice = or_default (read_field finalResult ''maxProfitPrice'') (JNum 10),
               draft_suggestedPrice = or_default (read_field finalResult ''maxProfitPrice'') (JNum 10),
               draft_createdAt = now env\<rparr>)"

text \<open>\<^verbatim>\<open>msg.split(": ")\<close> and \<^verbatim>\<open>parts.join(": ")\<close>.\<close>

fun split_colon :: "string \<Rightarrow> string list" where
  "split_colon [] = [[]]"
| "split_colon [c] = [[c]]"
| "split_colon (c # d # cs) =
     (if c = CHR '':'' \<and> d = CHR '' '' then [] # split_colon cs
      else (case split_colon (d # cs) of
              [] \<Rightarrow> [[c]]
            | part # parts \<Rightarrow> (c # part) # parts))"

fun join_colon :: "string list \<Rightarrow> string" where
  "join_colon [] = []"
| "join_colon [part] = part"
| "join_colon (part # parts) = part @ '': '' @ join_colon parts"

text \<open>
  The text shown by the \<^verbatim>\<open>catch\<close> block:
  \<^verbatim>\<open>msg.includes(":") ? msg.split(": ").slice(1).join(": ") : msg\<close> with
  \<^verbatim>\<open>msg = err?.message || "Analysis failed. Please try again."\<close>.
\<close>

definition display_message :: "js_exn \<Rightarrow> string" where
  "display_message err =
     (let msg = (if message err \<noteq> [] then message err else ''Analysis failed. Please try again.'')
      in if str_includes msg '':'' then join_colon (tl (split_colon msg)) else msg)"

text \<open>The \<^verbatim>\<open>catch\<close> block of \<^verbatim>\<open>proceedToAnalyze\<close>.\<close>

definition fail_analysis :: "js_exn \<Rightarrow> session \<Rightarrow> request_body list \<Rightarrow> run" where
  "fail_analysis err s sent =
     \<lparr>outcome = AnalysisFailed (message err),
      after = s\<lparr>error := Some (display_message err), step := Review\<rparr>,
      requests = sent, saved = []\<rparr>"

definition proceedToAnalyze :: "analyze_env \<Rightarrow> session \<Rightarrow> run" where
  "proceedToAnalyze env s =
     (if images s = [] then \<lparr>outcome = NoImages, after = s, requests = [], saved = []\<rparr>
      else if anyEnhancing s then
        \<lparr>outcome = EnhancementPending, after = s, requests = [], saved = []\<rparr>
      else if \<not> truthy_str (apiKey env) then
        \<lparr>outcome = MissingCredential,
         after = s\<lparr>error := Some ''Please set your OpenAI API key in Settings first.''\<rparr>,
         requests = [], saved = []\<rparr>
      else
        (let s1 = s\<lparr>step := Analyzing, error := None, streamingText := []\<rparr>
         in if originalImages s = [] then
              \<lparr>outcome = NoValidImages,
               after = s1\<lparr>error := Some ''No valid images to analyze.'', step := Review\<rparr>,
               requests = [], saved = []\<rparr>
            else
              (let body = \<lparr>body_imageBase64 = None, body_images = Some (originalImages s),
                          body_apiKey = apiKey env\<rparr>
               in case receive env (fetch env body) of
                    (Inl err, txt) \<Rightarrow> fail_analysis err (s1\<lparr>streamingText := txt\<rparr>) [body]
                  | (Inr finalResult, txt) \<Rightarrow>
                      (case build_draft env s finalResult of
                         Inl err \<Rightarrow> fail_analysis err (s1\<lparr>streamingText := txt\<rparr>) [body]
                       | Inr draft \<Rightarrow>
                           (case saveDraft env draft of
                              Some err \<Rightarrow> fail_analysis err (s1\<lparr>streamingText := txt\<rparr>) [body]
                            | None \<Rightarrow>
                                \<lparr>outcome = Completed draft,
                                 after = s1\<lparr>streamingText := txt, result := Some draft,
                                            step := Result\<rparr>,
                                 requests = [body], saved = [draft]\<rparr>)))))"

subsection \<open>The two sides together, and concrete inputs\<close>

text \<open>
  The handler writes every event as \<^verbatim>\<open>data: <JSON>\<close> followed by two line feeds;
  \<open>stringify\<close> is \<^verbatim>\<open>JSON.stringify\<close> on the event objects.
\<close>

definition sse_text :: "(sse_data \<Rightarrow> string) \<Rightarrow> sse_data \<Rightarrow> string" where
  "sse_text stringify e = ''data: '' @ stringify e @ [CHR 0x0A, CHR 0x0A]"

text \<open>
  The values that the reader decodes from a body: those of the complete lines (the pieces
  of the whole text that end with a line feed) that start with \<^verbatim>\<open>data: \<close> and are parsed.
\<close>

definition events_of :: "analyze_env \<Rightarrow> string list \<Rightarrow> parsed list" where
  "events_of env lines =
     concat (map (\<lambda>line. if prefix ''data: '' line
                          then (case jsonParse env (drop 6 line) of Some p \<Rightarrow> [p] | None \<Rightarrow> [])
                          else [])
               lines)"

definition received_events :: "analyze_env \<Rightarrow> string list \<Rightarrow> parsed list" where
  "received_events env chunks = events_of env (butlast (split_lf (concat chunks)))"

text \<open>The loop over the lines, seen on the parsed values alone.\<close>

fun process_events ::
  "analyze_env \<Rightarrow> parsed list \<Rightarrow> string \<times> jsval option
     \<Rightarrow> js_exn \<times> string + string \<times> jsval option" where
  "process_events env [] acc = Inr acc"
| "process_events env (p # rest) acc =
     (case process_parsed env p acc of
        Inl err \<Rightarrow> Inl (err, fst acc)
      | Inr acc' \<Rightarrow> process_events env rest acc')"

text \<open>The delta values carried by a sequence of parsed values, in order.\<close>

definition event_deltas :: "parsed list \<Rightarrow> string list" where
  "event_deltas ps =
     concat (map (\<lambda>p. case p of
                         ParsedEvent d \<Rightarrow> (case ev_delta d of Some t \<Rightarrow> [t] | None \<Rightarrow> [])
                       | ParsedNull \<Rightarrow> [])
               ps)"

text \<open>The request body that \<^verbatim>\<open>proceedToAnalyze\<close> sends.\<close>

definition request_of :: "analyze_env \<Rightarrow> session \<Rightarrow> request_body" where
  "request_of env s =
     \<lparr>body_imageBase64 = None, body_images = Some (originalImages s), body_apiKey = apiKey env\<rparr>"

text \<open>The text accumulated by the handler from the chunks of the completion service.\<close>

definition fullContent :: "string option list \<Rightarrow> string" where
  "fullContent chunks = fst (consume_chunks chunks ([], []))"

text \<open>The non-empty deltas among the chunks, in order.\<close>

definition deltas :: "string option list \<Rightarrow> string list" where
  "deltas chunks = filter (\<lambda>d. d \<noteq> []) (map (\<lambda>c. case c of Some d \<Rightarrow> d | None \<Rightarrow> []) chunks)"

text \<open>
  An invariant of the session: an image that is marked as enhancing has original bytes.
\<close>

definition bytes_when_enhancing :: "session \<Rightarrow> bool" where
  "bytes_when_enhancing s = list_all (\<lambda>img. \<not> enhancing img \<or> truthy_str (originalBase64 img)) (images s)"

text \<open>A network that answers every request with \<open>r\<close>, and a store that never throws.\<close>

definition respond_with :: "fetch_result \<Rightarrow> request_body \<Rightarrow> fetch_result" where
  "respond_with r body = r"

definition save_succeeds :: "listing_draft \<Rightarrow> js_exn option" where
  "save_succeeds d = None"

text \<open>
  The JSON texts of the events used in the examples, as \<^verbatim>\<open>JSON.stringify\<close> writes them and
  \<^verbatim>\<open>JSON.parse\<close> reads them. \<open>esc\<close> is a quotation mark escaped inside a JSON string.
\<close>

definition esc :: string where
  "esc = [CHR 0x5C, CHR 0x22]"

definition example_wire :: "(string \<times> sse_data) list" where
  "example_wire =
     [(''{\"delta\":\"{'' @ esc @ ''brand'' @ esc @ '':\"}'',
       \<lparr>ev_delta = Some ''{\"brand\":'', ev_result = None, ev_error = None, ev_done = False\<rparr>),
      (''{\"delta\":\"'' @ esc @ ''Nike'' @ esc @ ''}\"}'',
       \<lparr>ev_delta = Some ''\"Nike\"}'', ev_result = None, ev_error = None, ev_done = False\<rparr>),
      (''{\"done\":true}'',
       \<lparr>ev_delta = None, ev_result = None, ev_error = None, ev_done = True\<rparr>),
      (''{\"delta\":\"{'' @ esc @ ''brand'' @ esc @ '':'' @ esc @ ''Nike'' @ esc @ '',\",\"done\":false}'',
       \<lparr>ev_delta = Some ''{\"brand\":\"Nike\",'', ev_result = None, ev_error = None,
        ev_done = False\<rparr>),
      (''{\"delta\":\"'' @ esc @ ''condition'' @ esc @ '':'' @ esc @ ''New with tags'' @ esc
         @ ''}\",\"done\":false}'',
       \<lparr>ev_delta = Some ''\"condition\":\"New with tags\"}'', ev_result = None, ev_error = None,
        ev_done = False\<rparr>),
      (''{\"result\":{\"brand\":\"Nike\",\"condition\":\"New with tags\",\"quickSellPrice\":16,''
         @ ''\"maxProfitPrice\":25,\"sellProbability\":75,\"suggestedPrice\":25},\"done\":true}'',
       \<lparr>ev_delta = None,
        ev_result = Some (JObj [(''brand'', JStr ''Nike''), (''condition'', JStr ''New with tags''),
                                (''quickSellPrice'', JNum 16), (''maxProfitPrice'', JNum 25),
                                (''sellProbability'', JNum 75), (''suggestedPrice'', JNum 25)]),
        ev_error = None, ev_done = True\<rparr>),
      (''{\"delta\":\"I cannot see \",\"done\":false}'',
       \<lparr>ev_delta = Some ''I cannot see '', ev_result = None, ev_error = None, ev_done = False\<rparr>),
      (''{\"delta\":\"the photo.\",\"done\":false}'',
       \<lparr>ev_delta = Some ''the photo.'', ev_result = None, ev_error = None, ev_done = False\<rparr>),
      (''{\"error\":\"Failed to parse AI response\",\"done\":true}'',
       \<lparr>ev_delta = None, ev_result = None, ev_error = Some ''Failed to parse AI response'',
        ev_done = True\<rparr>)]"

definition example_parse_event :: "string \<Rightarrow> parsed option" where
  "example_parse_event t =
     (if t = ''null'' then Some ParsedNull else map_option ParsedEvent (map_of example_wire t))"

definition example_stringify :: "sse_data \<Rightarrow> string" where
  "example_stringify e = (case find (\<lambda>p. snd p = e) example_wire of Some p \<Rightarrow> fst p | None \<Rightarrow> [])"

text \<open>A body in which every event written by the handler arrives as one chunk.\<close>

definition example_chunks :: "sse_data list \<Rightarrow> string list" where
  "example_chunks evs = map (sse_text example_stringify) evs"

definition example_env :: "fetch_result \<Rightarrow> analyze_env" where
  "example_env r =
     \<lparr>apiKey = Some ''sk-test'', fetch = respond_with r, draftId = ''draft-1'', now = 0,
      saveDraft = save_succeeds, jsonParse = example_parse_event,
      nullReadMessage = ''Cannot read property 'error' of null''\<rparr>"

text \<open>A session in review with one photo whose enhancement has succeeded.\<close>

definition example_image :: image_item where
  "example_image =
     \<lparr>item_id = ''img-1'', originalUri = ''file:///a.jpg'', originalBase64 = Some ''QUJD'',
      enhancedUri = Some ''data:image/jpeg;base64,RUZH'', enhancedBase64 = Some ''RUZH'',
      enhancing = False, enhanceFailed = False\<rparr>"

definition example_session :: session where
  "example_session =
     \<lparr>step = Review, images = [example_image], selectedIdx = 0,
      useEnhanced = [(''img-1'', True)], result = None, error = None, streamingText = []\<rparr>"

text \<open>
  The events \<^verbatim>\<open>{delta:"{\"brand\":"}\<close>, \<^verbatim>\<open>{delta:"\"Nike\"}"}\<close>, \<^verbatim>\<open>{done:true}\<close> on the wire.
\<close>

definition nike_delta_events :: "sse_data list" where
  "nike_delta_events =
     [\<lparr>ev_delta = Some ''{\"brand\":'', ev_result = None, ev_error = None, ev_done = False\<rparr>,
      \<lparr>ev_delta = Some ''\"Nike\"}'', ev_result = None, ev_error = None, ev_done = False\<rparr>,
      \<lparr>ev_delta = None, ev_result = None, ev_error = None, ev_done = True\<rparr>]"

text \<open>
  The value of \<^verbatim>\<open>JSON.parse\<close> on the one text used in the examples; every other text is
  taken to be rejected.
\<close>

definition example_parse :: "string \<Rightarrow> jsval option" where
  "example_parse t =
     (if t = ''{\"brand\":\"Nike\",\"condition\":\"New with tags\"}''
      then Some (JObj [(''brand'', JStr ''Nike''), (''condition'', JStr ''New with tags'')])
      else None)"

definition example_body :: request_body where
  "example_body = \<lparr>body_imageBase64 = None, body_images = Some [''QUJD''], body_apiKey = Some ''sk-test''\<rparr>"

text \<open>
  A complete run: the service streams the text of an object in two chunks (with one empty
  chunk between them), the handler prices it with the draws \<open>1/2\<close> and \<open>1/4\<close>, and the
  upload screen builds the draft from the terminal event.
\<close>

definition nike_chunks :: "string option list" where
  "nike_chunks = [Some ''{\"brand\":\"Nike\",'', None, Some ''\"condition\":\"New with tags\"}'']"

definition nike_result :: jsval where
  "nike_result =
     JObj [(''brand'', JStr ''Nike''), (''condition'', JStr ''New with tags''),
           (''quickSellPrice'', JNum 16), (''maxProfitPrice'', JNum 25),
           (''sellProbability'', JNum 75), (''suggestedPrice'', JNum 25)]"

definition nike_stream :: "sse_data list" where
  "nike_stream =
     [delta_event ''{\"brand\":\"Nike\",'', delta_event ''\"condition\":\"New with tags\"}'',
      result_event nike_result]"

definition nike_draft :: listing_draft where
  "nike_draft =
     \<lparr>draft_id = ''draft-1'', draft_imageUri = ''data:image/jpeg;base64,RUZH'',
      draft_imageUris = [''data:image/jpeg;base64,RUZH''], draft_brand = JStr ''Nike'',
      draft_category = JStr ''Clothing'', draft_title = JStr ''Untitled'',
      draft_material = JStr ''Unknown'', draft_condition = JStr ''New with tags'',
      draft_conditionScore = JStr ''New with tags'',
      draft_flaws = JStr ''No visible flaws detected'', draft_description = JStr [],
      draft_sellProbability = JNum 75, draft_quickSellPrice = JNum 16,
      draft_maxProfitPrice = JNum 25, draft_suggestedPrice = JNum 25, draft_createdAt = 0\<rparr>"

text \<open>A reply of the service that is not JSON, and the stream the handler makes of it.\<close>

definition refusal_chunks :: "string option list" where
  "refusal_chunks = [Some ''I cannot see '', Some ''the photo.'']"

definition refusal_stream :: "sse_data list" where
  "refusal_stream =
     [delta_event ''I cannot see '', delta_event ''the photo.'',
      error_event ''Failed to parse AI response'']"

text \<open>The text written for that stream, arriving in two chunks that cut a line in two.\<close>

definition refusal_body :: "string list" where
  "refusal_body =
     [take 30 (concat (example_chunks refusal_stream)),
      drop 30 (concat (example_chunks refusal_stream))]"

text \<open>A body whose only data line carries \<^verbatim>\<open>null\<close>.\<close>

definition null_body :: "string list" where
  "null_body = [''data: null'' @ [CHR 0x0A, CHR 0x0A]]"

text \<open>
  A session in review that holds four photos, and a gallery that returns two assets although
  it was asked for one at most.
\<close>

definition four_image_session :: session where
  "four_image_session =
     \<lparr>step = Review,
      images = [example_image, example_image\<lparr>item_id := ''img-2''\<rparr>,
                example_image\<lparr>item_id := ''img-3''\<rparr>, example_image\<lparr>item_id := ''img-4''\<rparr>],
      selectedIdx = 0,
      useEnhanced = [(''img-1'', True), (''img-2'', True), (''img-3'', True), (''img-4'', True)],
      result = None, error = None, streamingText = []\<rparr>"

definition two_picked_assets :: "picked_asset list" where
  "two_picked_assets =
     [(''img-5'', ''file:///e.jpg'', Some ''RUVF'', EnhanceThrows),
      (''img-6'', ''file:///f.jpg'', Some ''RkZG'', EnhanceThrows)]"

text \<open>A session in review whose only photo came without bytes.\<close>

definition bytes_missing_session :: session where
  "bytes_missing_session =
     \<lparr>step = Review,
      images = [\<lparr>item_id = ''img-1'', originalUri = ''file:///a.jpg'', originalBase64 = None,
                 enhancedUri = None, enhancedBase64 = None, enhancing = False,
                 enhanceFailed = True\<rparr>],
      selectedIdx = 0, useEnhanced = [(''img-1'', True)], result = None, error = None,
      streamingText = []\<rparr>"

section \<open>Verified properties\<close>

subsection \<open>Pricing stays within its bounds\<close>

lemma round_quick_sell_le: "3 \<le> m \<Longrightarrow> round (of_int m * 0.65 :: real) \<le> m"
proof -
  assume m: "3 \<le> m"
  have "of_int m * 0.65 + 1/2 < (of_int (m + 1) :: real)"
    using m by simp
  then have "\<lfloor>of_int m * 0.65 + 1/2 :: real\<rfloor> < m + 1"
    by (simp only: floor_less_iff)
  then show ?thesis
    by (simp add: round_def)
qed

lemma first_match_nonneg:
  "0 \<le> dflt \<Longrightarrow> \<forall>kv \<in> set table. 0 \<le> snd kv \<Longrightarrow> 0 \<le> first_match text table dflt"
  by (induction table) auto

lemma basePrice_nonneg: "0 \<le> first_match text brandPrices 15"
  by (rule first_match_nonneg) (simp_all add: brandPrices_def)

lemma condMult_nonneg: "0 \<le> first_match text conditionMultipliers 0.7"
  by (rule first_match_nonneg) (simp_all add: conditionMultipliers_def)

lemma maxProfit_jitter:
  assumes "0 \<le> (x::real)"
  shows "max 3 (round x) \<noteq> max 3 (round (x + 9/2))"
proof -
  have a: "round x + 4 \<le> round (x + 9/2)"
  proof -
    have "round (x + 4) \<le> round (x + 9/2)"
      by (rule round_mono) simp
    moreover have "round (x + 4) = round x + 4"
      unfolding round_def by (metis add.assoc add.commute floor_add_int of_int_numeral)
    ultimately show ?thesis
      by simp
  qed
  have "round (4::real) \<le> round (x + 9/2)"
    by (rule round_mono) (use assms in simp)
  then have b: "4 \<le> round (x + 9/2)"
    by (simp add: round_def)
  show ?thesis
    using a b by linarith
qed

text \<open>
  Claim C2. For every brand, every condition and all values \<open>r1\<close>, \<open>r2\<close> of the two random
  draws (\<^verbatim>\<open>Math.random()\<close> lies in \<open>[0, 1)\<close>), the estimate has \<open>maxProfitPrice \<ge> 3\<close>,
  \<open>quickSellPrice \<ge> 2\<close>, \<open>quickSellPrice \<le> maxProfitPrice\<close> and
  \<open>15 \<le> sellProbability \<le> 99\<close>. The result does depend on the draws: for the same brand and
  condition the draws \<open>0\<close> and \<open>9/10\<close> give different values of \<open>maxProfitPrice\<close>.
  Numbers are exact reals here; the margins of the bounds (at least one half) are far above
  the rounding error of doubles.
\<close>

theorem generateUKPricing_bounds:
  assumes "0 \<le> r1" and "r1 < 1" and "0 \<le> r2" and "r2 < 1"
  shows "3 \<le> maxProfitPrice (generateUKPricing brand condition r1 r2)
       \<and> 2 \<le> quickSellPrice (generateUKPricing brand condition r1 r2)
       \<and> quickSellPrice (generateUKPricing brand condition r1 r2)
           \<le> maxProfitPrice (generateUKPricing brand condition r1 r2)
       \<and> 15 \<le> sellProbability (generateUKPricing brand condition r1 r2)
       \<and> sellProbability (generateUKPricing brand condition r1 r2) \<le> 99
       \<and> maxProfitPrice (generateUKPricing brand condition 0 r2)
           \<noteq> maxProfitPrice (generateUKPricing brand condition (9/10) r2)"
proof -
  let ?x = "first_match (toLowerCase brand) brandPrices 15
            * first_match (toLowerCase condition) conditionMultipliers 0.7"
  have x: "0 \<le> ?x"
    using basePrice_nonneg condMult_nonneg by simp
  have q: "max 2 (round (of_int (max 3 (round (?x + r1 * 5))) * 0.65 :: real))
           \<le> max 3 (round (?x + r1 * 5))"
    using round_quick_sell_le [of "max 3 (round (?x + r1 * 5))"] by simp
  have j: "max 3 (round ?x) \<noteq> max 3 (round (?x + 9/2))"
    using x by (rule maxProfit_jitter)
  show ?thesis
    using q j by (simp add: generateUKPricing_def Let_def)
qed

theorem generateUKPricing_bounds_witness:
  "(0::real) \<le> 1/2 \<and> (1/2::real) < 1 \<and> (0::real) \<le> 1/4 \<and> (1/4::real) < 1
   \<and> 3 \<le> maxProfitPrice (generateUKPricing ''Nike Hoodie'' ''New with tags'' (1/2) (1/4))
   \<and> 2 \<le> quickSellPrice (generateUKPricing ''Nike Hoodie'' ''New with tags'' (1/2) (1/4))
   \<and> quickSellPrice (generateUKPricing ''Nike Hoodie'' ''New with tags'' (1/2) (1/4))
       \<le> maxProfitPrice (generateUKPricing ''Nike Hoodie'' ''New with tags'' (1/2) (1/4))
   \<and> 15 \<le> sellProbability (generateUKPricing ''Nike Hoodie'' ''New with tags'' (1/2) (1/4))
   \<and> sellProbability (generateUKPricing ''Nike Hoodie'' ''New with tags'' (1/2) (1/4)) \<le> 99
   \<and> maxProfitPrice (generateUKPricing ''Nike Hoodie'' ''New with tags'' 0 (1/4))
       \<noteq> maxProfitPrice (generateUKPricing ''Nike Hoodie'' ''New with tags'' (9/10) (1/4))"
  using generateUKPricing_bounds [of "1/2" "1/4" "''Nike Hoodie''" "''New with tags''"]
  by simp

subsection \<open>The event stream of the streaming endpoint\<close>

lemma consume_chunks_eq:
  "consume_chunks chunks (full, out) = (full @ concat (deltas chunks), out @ map delta_event (deltas chunks))"
  by (induction chunks arbitrary: full out) (auto simp: deltas_def Let_def split: option.splits)

lemma failure_message_nonempty: "failure_message err \<noteq> []"
  by (simp add: failure_message_def)

lemma build_result_truthy: "build_result parsed r1 r2 = Inr fr \<Longrightarrow> truthy fr"
  by (auto simp: build_result_def split: sum.splits)

lemma terminal_error_event:
  "m \<noteq> [] \<Longrightarrow> \<exists>ds t. map delta_event w @ [error_event m] = map delta_event ds @ [t] \<and> ev_done t
           \<and> ((\<exists>r. ev_result t = Some r \<and> truthy r \<and> ev_error t = None)
              \<or> (\<exists>m. ev_error t = Some m \<and> m \<noteq> [] \<and> ev_result t = None))"
  by (rule exI [of _ w], rule exI [of _ "error_event m"]) (simp add: error_event_def)

lemma terminal_result_event:
  "truthy v \<Longrightarrow> \<exists>ds t. map delta_event w @ [result_event v] = map delta_event ds @ [t] \<and> ev_done t
           \<and> ((\<exists>r. ev_result t = Some r \<and> truthy r \<and> ev_error t = None)
              \<or> (\<exists>m. ev_error t = Some m \<and> m \<noteq> [] \<and> ev_result t = None))"
  by (rule exI [of _ w], rule exI [of _ "result_event v"]) (simp add: result_event_def)

lemma analyze_stream_forms:
  assumes "analyze_stream parse r1 r2 ai body = EventStream evs"
  shows "(\<exists>w m. evs = map delta_event w @ [error_event m] \<and> m \<noteq> [])
       \<or> (\<exists>w v. evs = map delta_event w @ [result_event v] \<and> truthy v)"
proof -
  have e0: "[error_event m] = map delta_event [] @ [error_event m]" for m
    by simp
  show ?thesis
    using assms failure_message_nonempty build_result_truthy
    by (simp add: analyze_stream_def Let_def consume_chunks_eq 
             split: if_splits completion_stream.splits option.splits sum.splits)
       (metis e0 list.simps(3))+
qed

lemma analyze_stream_shape:
  assumes "analyze_stream parse r1 r2 ai body = EventStream evs"
  shows "\<exists>ds t. evs = map delta_event ds @ [t] \<and> ev_done t
           \<and> ((\<exists>r. ev_result t = Some r \<and> truthy r \<and> ev_error t = None)
              \<or> (\<exists>m. ev_error t = Some m \<and> m \<noteq> [] \<and> ev_result t = None))"
  using analyze_stream_forms [OF assms] terminal_error_event terminal_result_event
  by (elim disjE exE conjE) simp_all

text \<open>
  Claim C9. Whenever the streaming endpoint answers with an event stream, the stream is not
  empty, its last event has \<^verbatim>\<open>done: true\<close> and carries either a result object or a non-empty
  error message, and every event before it is a delta with \<^verbatim>\<open>done: false\<close>; so exactly one
  event of the stream is terminal and nothing follows it.
\<close>

theorem analyze_stream_one_terminal:
  assumes "analyze_stream parse r1 r2 ai body = EventStream evs"
  shows "evs \<noteq> [] \<and> ev_done (last evs)
       \<and> ((\<exists>r. ev_result (last evs) = Some r \<and> truthy r \<and> ev_error (last evs) = None)
          \<or> (\<exists>m. ev_error (last evs) = Some m \<and> m \<noteq> [] \<and> ev_result (last evs) = None))
       \<and> (\<forall>e \<in> set (butlast evs). \<not> ev_done e \<and> ev_result e = None \<and> ev_error e = None)
       \<and> length (filter ev_done evs) = 1"
proof -
  obtain ds t where evs: "evs = map delta_event ds @ [t]" and t: "ev_done t"
    and rt: "(\<exists>r. ev_result t = Some r \<and> truthy r \<and> ev_error t = None)
              \<or> (\<exists>m. ev_error t = Some m \<and> m \<noteq> [] \<and> ev_result t = None)"
    using analyze_stream_shape [OF assms] by blast
  have d: "filter ev_done (map delta_event ds) = []"
    by (induction ds) (simp_all add: delta_event_def)
  have b: "\<forall>e \<in> set (map delta_event ds). \<not> ev_done e \<and> ev_result e = None \<and> ev_error e = None"
    by (auto simp: delta_event_def)
  show ?thesis
    using t rt d b by (simp add: evs)
qed

subsection \<open>Reading the body of the response\<close>

lemma split_lf_nonempty: "split_lf s \<noteq> []"
  by (induction s) (auto split: list.splits)

lemma split_lf_no_lf: "CHR 0x0A \<notin> set s \<Longrightarrow> split_lf s = [s]"
  by (induction s) auto

lemma last_split_lf: "CHR 0x0A \<notin> set (last (split_lf s))"
  by (induction s) (auto simp: split_lf_nonempty split: list.splits)

lemma split_lf_append:
  "split_lf (a @ b) = butlast (split_lf a) @ split_lf (last (split_lf a) @ b)"
proof (induction a)
  case Nil
  then show ?case by simp
next
  case (Cons c a)
  obtain l ls where s: "split_lf a = l # ls"
    using split_lf_nonempty [of a] by (cases "split_lf a") auto
  show ?case
  proof (cases "ls = []")
    case True
    then show ?thesis
      using Cons s by (auto split: list.splits simp: split_lf_nonempty)
  next
    case False
    then show ?thesis
      using Cons s by (auto split: list.splits simp: split_lf_nonempty)
  qed
qed

lemma split_lf_line: "CHR 0x0A \<notin> set a \<Longrightarrow> split_lf (a @ CHR 0x0A # b) = a # split_lf b"
  by (induction a) auto

lemma process_lines_append:
  "process_lines env (xs @ ys) acc =
     (case process_lines env xs acc of
        Inl failure \<Rightarrow> Inl failure
      | Inr acc' \<Rightarrow> process_lines env ys acc')"
  by (induction xs arbitrary: acc) (auto split: sum.splits)

text \<open>
  However the body is cut into chunks, the loop processes the complete lines of the whole
  text, in order.
\<close>

lemma read_loop_lines:
  "CHR 0x0A \<notin> set buffer \<Longrightarrow>
   read_loop env chunks buffer acc
     = process_lines env (butlast (split_lf (buffer @ concat chunks))) acc"
proof (induction chunks arbitrary: buffer acc)
  case Nil
  then show ?case by (simp add: split_lf_no_lf)
next
  case (Cons chunk rest)
  have s: "split_lf (buffer @ chunk @ concat rest)
           = butlast (split_lf (buffer @ chunk))
             @ split_lf (last (split_lf (buffer @ chunk)) @ concat rest)"
    using split_lf_append [of "buffer @ chunk" "concat rest"] by simp
  have b: "butlast (split_lf (buffer @ chunk @ concat rest))
           = butlast (split_lf (buffer @ chunk))
             @ butlast (split_lf (last (split_lf (buffer @ chunk)) @ concat rest))"
    unfolding s by (simp add: butlast_append split_lf_nonempty)
  show ?case
    using Cons.IH [OF last_split_lf, of "buffer @ chunk"]
    by (simp add: Let_def b process_lines_append split: sum.splits)
qed

lemma process_lines_events:
  "process_lines env lines acc = process_events env (events_of env lines) acc"
  by (induction lines arbitrary: acc)
     (auto simp: events_of_def process_line_def split: option.splits sum.splits)

lemma framed_lines:
  assumes "CHR 0x0A \<notin> set pre" and "\<forall>e \<in> set evs. CHR 0x0A \<notin> set (f e)"
  shows "split_lf (concat (map (\<lambda>e. pre @ f e @ [CHR 0x0A, CHR 0x0A]) evs))
         = concat (map (\<lambda>e. [pre @ f e, []]) evs) @ [[]]"
  using assms(2)
proof (induction evs)
  case Nil
  then show ?case by simp
next
  case (Cons e evs)
  let ?rest = "concat (map (\<lambda>e. pre @ f e @ [CHR 0x0A, CHR 0x0A]) evs)"
  have n: "CHR 0x0A \<notin> set (pre @ f e)"
    using Cons.prems assms(1) by simp
  have "split_lf ((pre @ f e) @ CHR 0x0A # (CHR 0x0A # ?rest))
        = (pre @ f e) # split_lf (CHR 0x0A # ?rest)"
    by (rule split_lf_line [OF n])
  then have "split_lf ((pre @ f e) @ CHR 0x0A # (CHR 0x0A # ?rest)) = (pre @ f e) # [] # split_lf ?rest"
    by simp
  then show ?case
    using Cons by simp
qed

lemma wire_lines:
  assumes "\<forall>e \<in> set evs. CHR 0x0A \<notin> set (stringify e)"
  shows "split_lf (concat (map (sse_text stringify) evs))
         = concat (map (\<lambda>e. [''data: '' @ stringify e, []]) evs) @ [[]]"
proof -
  have "CHR 0x0A \<notin> set ''data: ''"
    by simp
  from framed_lines [OF this assms] show ?thesis
    unfolding sse_text_def .
qed

lemma events_of_framed:
  assumes "\<forall>e \<in> set evs. jsonParse env (stringify e) = Some (ParsedEvent e)"
  shows "events_of env (concat (map (\<lambda>e. [''data: '' @ stringify e, []]) evs))
         = map ParsedEvent evs"
  using assms by (induction evs) (simp_all add: events_of_def)

text \<open>
  When the body is the text written by the handler, cut into chunks in any way, and
  \<^verbatim>\<open>JSON.parse\<close> inverts \<^verbatim>\<open>JSON.stringify\<close> on the events written (whose texts contain no
  line feed), the reader decodes exactly the events written.
\<close>

lemma wire_events:
  assumes "\<forall>e \<in> set evs. CHR 0x0A \<notin> set (stringify e)
             \<and> jsonParse env (stringify e) = Some (ParsedEvent e)"
    and "concat chunks = concat (map (sse_text stringify) evs)"
  shows "received_events env chunks = map ParsedEvent evs"
proof -
  have 1: "\<forall>e \<in> set evs. CHR 0x0A \<notin> set (stringify e)"
    and 2: "\<forall>e \<in> set evs. jsonParse env (stringify e) = Some (ParsedEvent e)"
    using assms(1) by simp_all
  show ?thesis
    unfolding received_events_def assms(2) wire_lines [OF 1]
    using events_of_framed [OF 2] by simp
qed

lemma receive_events:
  "receive env (Body chunks ending) =
     (case process_events env (received_events env chunks) ([], None) of
        Inl (err, tx) \<Rightarrow> (Inl err, tx)
      | Inr (tx, fin) \<Rightarrow>
          (case ending of
             Some err \<Rightarrow> (Inl err, tx)
           | None \<Rightarrow>
               (case fin of
                  None \<Rightarrow> (Inl (Error ''No result received from AI''), tx)
                | Some finalResult \<Rightarrow> (Inr finalResult, tx))))"
  using read_loop_lines [of "[]" env chunks "([], None)"]
  by (simp add: receive_def received_events_def process_lines_events)

lemma process_events_deltas:
  "process_events env (map ParsedEvent (map delta_event ds) @ rest) (tx, fin)
     = process_events env rest (tx @ concat ds, fin)"
  by (induction ds arbitrary: tx)
     (simp_all add: process_parsed_def process_event_def inner_catch_def handle_data_def
        delta_event_def)

lemma process_events_error_event:
  assumes "m \<noteq> []" and "\<not> str_includes m ''JSON''"
  shows "process_events env [ParsedEvent (error_event m)] (tx, fin) = Inl (Error m, tx)"
  using assms
  by (simp add: process_parsed_def process_event_def inner_catch_def handle_data_def
        error_event_def Error_def)

lemma process_events_no_result:
  assumes "\<forall>p \<in> set ps.
             \<exists>d. p = ParsedEvent d \<and> \<not> truthy_str (ev_error d)
                 \<and> \<not> (ev_done d \<and> (\<exists>r. ev_result d = Some r \<and> truthy r))"
  shows "process_events env ps (tx, fin) = Inr (tx @ concat (event_deltas ps), fin)"
  using assms
proof (induction ps arbitrary: tx)
  case Nil
  then show ?case by (simp add: event_deltas_def)
next
  case (Cons p ps)
  obtain d where p: "p = ParsedEvent d"
    and d: "\<not> truthy_str (ev_error d)" "\<not> (ev_done d \<and> (\<exists>r. ev_result d = Some r \<and> truthy r))"
    using Cons.prems by auto
  have h: "handle_data d (tx, fin)
           = Inr (case ev_delta d of Some t \<Rightarrow> tx @ t | None \<Rightarrow> tx, fin)"
    using d by (cases "ev_error d"; cases "ev_result d") (auto simp: handle_data_def)
  have "process_events env ps (case ev_delta d of Some t \<Rightarrow> tx @ t | None \<Rightarrow> tx, fin)
        = Inr ((case ev_delta d of Some t \<Rightarrow> tx @ t | None \<Rightarrow> tx) @ concat (event_deltas ps), fin)"
    using Cons.IH Cons.prems by simp
  then show ?case
    using h
    by (simp add: p process_parsed_def process_event_def inner_catch_def event_deltas_def
          split: option.splits)
qed

text \<open>
  A data line whose value is \<^verbatim>\<open>null\<close>, after event objects without an error and without a
  result: the \<^verbatim>\<open>TypeError\<close> of the property read leaves the loop when its message is not
  empty and does not contain \<^verbatim>\<open>JSON\<close>, and the line is given up otherwise.
\<close>

lemma process_events_null:
  assumes "\<forall>p \<in> set ps.
             \<exists>d. p = ParsedEvent d \<and> \<not> truthy_str (ev_error d)
                 \<and> \<not> (ev_done d \<and> (\<exists>r. ev_result d = Some r \<and> truthy r))"
  shows "process_events env (ps @ ParsedNull # rest) (tx, fin)
         = (if nullReadMessage env \<noteq> [] \<and> \<not> str_includes (nullReadMessage env) ''JSON''
            then Inl (Error (nullReadMessage env), tx @ concat (event_deltas ps))
            else process_events env rest (tx @ concat (event_deltas ps), fin))"
  using assms
proof (induction ps arbitrary: tx)
  case Nil
  then show ?case
    by (simp add: event_deltas_def process_parsed_def inner_catch_def Error_def)
next
  case (Cons p ps)
  obtain d where p: "p = ParsedEvent d"
    and d: "\<not> truthy_str (ev_error d)" "\<not> (ev_done d \<and> (\<exists>r. ev_result d = Some r \<and> truthy r))"
    using Cons.prems by auto
  have h: "handle_data d (tx, fin)
           = Inr (case ev_delta d of Some t \<Rightarrow> tx @ t | None \<Rightarrow> tx, fin)"
    using d by (cases "ev_error d"; cases "ev_result d") (auto simp: handle_data_def)
  have i: "process_events env (ps @ ParsedNull # rest)
             (case ev_delta d of Some t \<Rightarrow> tx @ t | None \<Rightarrow> tx, fin)
        = (if nullReadMessage env \<noteq> [] \<and> \<not> str_includes (nullReadMessage env) ''JSON''
            then Inl (Error (nullReadMessage env),
                   (case ev_delta d of Some t \<Rightarrow> tx @ t | None \<Rightarrow> tx) @ concat (event_deltas ps))
            else process_events env rest
                   ((case ev_delta d of Some t \<Rightarrow> tx @ t | None \<Rightarrow> tx) @ concat (event_deltas ps), fin))"
    using Cons.IH Cons.prems by simp
  show ?case
    using h i
    by (simp add: p process_parsed_def process_event_def inner_catch_def event_deltas_def
          split: option.splits)
qed

lemma display_message_plain:
  "m \<noteq> [] \<Longrightarrow> \<not> str_includes m '':'' \<Longrightarrow> display_message (Error m) = m"
  by (simp add: display_message_def Error_def)

subsection \<open>A complete run on concrete input\<close>

lemmas pricing_eval = generateUKPricing_def lower_char_def brandPrices_def
  conditionMultipliers_def round_def Let_def

lemma build_result_nike:
  "build_result (JObj [(''brand'', JStr ''Nike''), (''condition'', JStr ''New with tags'')]) (1/2) (1/4)
     = Inr nike_result"
  by (simp add: build_result_def get_prop_def js_generateUKPricing_def pricing_eval spread_def
        pricing_entries_def nike_result_def)

lemma clean_content_nike:
  "clean_content ''{\"brand\":\"Nike\",\"condition\":\"New with tags\"}''
     = ''{\"brand\":\"Nike\",\"condition\":\"New with tags\"}''"
  by (simp add: clean_content_def trim_def white_space_def)

lemma analyze_stream_nike:
  "analyze_stream example_parse (1/2) (1/4) (ChunkStream nike_chunks None) example_body
     = EventStream nike_stream"
  by (simp add: analyze_stream_def example_body_def nike_chunks_def nike_stream_def
        clean_content_nike example_parse_def build_result_nike Let_def)

lemma analyze_nike:
  "analyze example_parse (1/2) (1/4)
       (Completion (Some ''{\"brand\":\"Nike\",\"condition\":\"New with tags\"}'')) example_body
     = JsonResponse 200 nike_result"
  by (simp add: analyze_def example_body_def clean_content_nike example_parse_def
        build_result_nike Let_def)

lemma example_roundtrip:
  "e \<in> set (map snd example_wire) \<Longrightarrow>
   CHR 0x0A \<notin> set (example_stringify e)
   \<and> example_parse_event (example_stringify e) = Some (ParsedEvent e)"
  by (auto simp: example_wire_def example_stringify_def example_parse_event_def esc_def)

lemma example_env_simps:
  "apiKey (example_env r) = Some ''sk-test''" "fetch (example_env r) body = r"
  "draftId (example_env r) = ''draft-1''" "now (example_env r) = 0"
  "saveDraft (example_env r) d = None" "jsonParse (example_env r) = example_parse_event"
  "nullReadMessage (example_env r) = ''Cannot read property 'error' of null''"
  by (simp_all add: example_env_def respond_with_def save_succeeds_def)

lemma received_example_chunks:
  assumes "set evs \<subseteq> set (map snd example_wire)"
  shows "received_events (example_env r) (example_chunks evs) = map ParsedEvent evs"
proof (rule wire_events [where stringify = example_stringify])
  show "\<forall>e \<in> set evs. CHR 0x0A \<notin> set (example_stringify e)
          \<and> jsonParse (example_env r) (example_stringify e) = Some (ParsedEvent e)"
    using assms example_roundtrip by (auto simp: example_env_simps)
  show "concat (example_chunks evs) = concat (map (sse_text example_stringify) evs)"
    by (simp add: example_chunks_def)
qed

lemma received_nike_stream:
  "received_events (example_env r) (example_chunks nike_stream) = map ParsedEvent nike_stream"
  by (rule received_example_chunks)
     (simp add: nike_stream_def example_wire_def delta_event_def result_event_def nike_result_def)

lemma proceedToAnalyze_nike:
  "proceedToAnalyze (example_env (Body (example_chunks nike_stream) None)) example_session
     = \<lparr>outcome = Completed nike_draft,
        after = example_session\<lparr>step := Result, result := Some nike_draft,
                  streamingText := ''{\"brand\":\"Nike\",\"condition\":\"New with tags\"}''\<rparr>,
        requests = [example_body], saved = [nike_draft]\<rparr>"
proof -
  have r: "receive (example_env (Body (example_chunks nike_stream) None))
             (Body (example_chunks nike_stream) None)
           = (Inr nike_result, ''{\"brand\":\"Nike\",\"condition\":\"New with tags\"}'')"
    unfolding receive_events received_nike_stream
    by (simp add: nike_stream_def delta_event_def result_event_def process_parsed_def
          process_event_def inner_catch_def handle_data_def nike_result_def)
  have d: "build_draft (example_env (Body (example_chunks nike_stream) None)) example_session
             nike_result = Inr nike_draft"
    by (simp add: build_draft_def example_env_simps example_session_def example_image_def
          chosen_uri_def read_field_def nike_result_def nike_draft_def)
  show ?thesis
    by (simp add: proceedToAnalyze_def example_env_simps r d Let_def)
       (simp add: example_session_def example_image_def anyEnhancing_def originalImages_def
          example_body_def)
qed

text \<open>The stream of the complete run, as an instance of claim C9.\<close>

theorem analyze_stream_one_terminal_witness:
  "analyze_stream example_parse (1/2) (1/4) (ChunkStream nike_chunks None) example_body
     = EventStream nike_stream
   \<and> nike_stream \<noteq> [] \<and> ev_done (last nike_stream)
   \<and> ((\<exists>r. ev_result (last nike_stream) = Some r \<and> truthy r \<and> ev_error (last nike_stream) = None)
      \<or> (\<exists>m. ev_error (last nike_stream) = Some m \<and> m \<noteq> [] \<and> ev_result (last nike_stream) = None))
   \<and> list_all (\<lambda>e. \<not> ev_done e \<and> ev_result e = None \<and> ev_error e = None) (butlast nike_stream)
   \<and> length (filter ev_done nike_stream) = 1"
  using analyze_stream_nike analyze_stream_one_terminal [OF analyze_stream_nike]
  by (simp add: list_all_iff)

subsection \<open>The suggested price\<close>

lemma build_result_prices:
  assumes "build_result parsed r1 r2 = Inr fr"
  shows "\<exists>x. read_field fr ''suggestedPrice'' = Some (JNum x)
           \<and> read_field fr ''maxProfitPrice'' = Some (JNum x)"
  using assms
  by (auto simp: build_result_def read_field_def spread_def pricing_entries_def AList.update_conv'
           split: sum.splits)

lemma build_draft_prices:
  "build_draft env s fr = Inr d \<Longrightarrow> draft_suggestedPrice d = draft_maxProfitPrice d"
  by (auto simp: build_draft_def split: list.splits)

lemma proceedToAnalyze_completed:
  assumes "outcome (proceedToAnalyze env s) = Completed d"
  shows "\<exists>fr. build_draft env s fr = Inr d"
  using assms
  by (auto simp: proceedToAnalyze_def fail_analysis_def Let_def
           split: if_splits prod.splits sum.splits option.splits)

lemma proceedToAnalyze_saved:
  assumes "d \<in> set (saved (proceedToAnalyze env s))"
  shows "outcome (proceedToAnalyze env s) = Completed d"
  using assms
  by (auto simp: proceedToAnalyze_def fail_analysis_def Let_def
           split: if_splits prod.splits sum.splits option.splits)

lemma analyze_stream_results:
  assumes "analyze_stream parse r1 r2 ai body = EventStream evs"
    and "e \<in> set evs" and "ev_result e = Some r"
  shows "\<exists>parsed. build_result parsed r1 r2 = Inr r"
  using assms
  by (auto simp: analyze_stream_def Let_def error_event_def result_event_def delta_event_def
             consume_chunks_eq
           split: if_splits completion_stream.splits option.splits sum.splits)
     blast

lemma analyze_bodies:
  assumes "analyze parse r1 r2 ai body = JsonResponse st r"
  shows "(\<exists>parsed. build_result parsed r1 r2 = Inr r) \<or> (\<exists>m. r = JObj [(''error'', JStr m)])"
  using assms
  by (auto simp: analyze_def Let_def missing_input_def
           split: if_splits completion.splits option.splits sum.splits)


text \<open>
  Claim C8. The draft built by the upload screen has \<open>suggestedPrice = maxProfitPrice\<close>,
  whenever a run completes and for every draft that is stored; every result object sent by
  the streaming endpoint, and every body of the non-streaming endpoint other than an error
  body, carries the same number in \<open>suggestedPrice\<close> and in \<open>maxProfitPrice\<close>.
\<close>

theorem suggestedPrice_equals_maxProfitPrice:
  "(\<forall>d. outcome (proceedToAnalyze env s) = Completed d
        \<longrightarrow> draft_suggestedPrice d = draft_maxProfitPrice d)
   \<and> (\<forall>d \<in> set (saved (proceedToAnalyze env s)). draft_suggestedPrice d = draft_maxProfitPrice d)
   \<and> (\<forall>evs e r. analyze_stream parse r1 r2 ai body = EventStream evs \<and> e \<in> set evs
           \<and> ev_result e = Some r
        \<longrightarrow> (\<exists>x. read_field r ''suggestedPrice'' = Some (JNum x)
                 \<and> read_field r ''maxProfitPrice'' = Some (JNum x)))
   \<and> (\<forall>st r. analyze parse r1 r2 ai' body = JsonResponse st r
        \<longrightarrow> (\<exists>x. read_field r ''suggestedPrice'' = Some (JNum x)
                 \<and> read_field r ''maxProfitPrice'' = Some (JNum x))
            \<or> (\<exists>m. r = JObj [(''error'', JStr m)]))"
proof (intro conjI allI ballI impI)
  fix d
  assume "outcome (proceedToAnalyze env s) = Completed d"
  then show "draft_suggestedPrice d = draft_maxProfitPrice d"
    using proceedToAnalyze_completed build_draft_prices by blast
next
  fix d
  assume "d \<in> set (saved (proceedToAnalyze env s))"
  then show "draft_suggestedPrice d = draft_maxProfitPrice d"
    using proceedToAnalyze_saved proceedToAnalyze_completed build_draft_prices by blast
next
  fix evs e r
  assume "analyze_stream parse r1 r2 ai body = EventStream evs \<and> e \<in> set evs \<and> ev_result e = Some r"
  then show "\<exists>x. read_field r ''suggestedPrice'' = Some (JNum x)
                 \<and> read_field r ''maxProfitPrice'' = Some (JNum x)"
    using analyze_stream_results build_result_prices by blast
next
  fix st r
  assume "analyze parse r1 r2 ai' body = JsonResponse st r"
  then show "(\<exists>x. read_field r ''suggestedPrice'' = Some (JNum x)
                 \<and> read_field r ''maxProfitPrice'' = Some (JNum x))
            \<or> (\<exists>m. r = JObj [(''error'', JStr m)])"
    using analyze_bodies build_result_prices by blast
qed

theorem suggestedPrice_equals_maxProfitPrice_witness:
  "outcome (proceedToAnalyze (example_env (Body (example_chunks nike_stream) None)) example_session)
     = Completed nike_draft
   \<and> nike_draft \<in> set (saved (proceedToAnalyze (example_env (Body (example_chunks nike_stream) None))
                              example_session))
   \<and> draft_suggestedPrice nike_draft = draft_maxProfitPrice nike_draft
   \<and> analyze_stream example_parse (1/2) (1/4) (ChunkStream nike_chunks None) example_body
       = EventStream nike_stream
   \<and> result_event nike_result \<in> set nike_stream
   \<and> ev_result (result_event nike_result) = Some nike_result
   \<and> analyze example_parse (1/2) (1/4)
         (Completion (Some ''{\"brand\":\"Nike\",\"condition\":\"New with tags\"}'')) example_body
       = JsonResponse 200 nike_result
   \<and> (\<exists>x. read_field nike_result ''suggestedPrice'' = Some (JNum x)
          \<and> read_field nike_result ''maxProfitPrice'' = Some (JNum x))"
proof -
  have a: "outcome (proceedToAnalyze (example_env (Body (example_chunks nike_stream) None)) example_session)
             = Completed nike_draft"
    by (simp add: proceedToAnalyze_nike)
  have b: "nike_draft \<in> set (saved (proceedToAnalyze (example_env (Body (example_chunks nike_stream) None))
                              example_session))"
    by (simp add: proceedToAnalyze_nike)
  have c: "result_event nike_result \<in> set nike_stream"
    by (simp add: nike_stream_def)
  have d: "ev_result (result_event nike_result) = Some nike_result"
    by (simp add: result_event_def)
  show ?thesis
    using a b c d analyze_stream_nike analyze_nike
      suggestedPrice_equals_maxProfitPrice
        [of "example_env (Body (example_chunks nike_stream) None)" example_session example_parse
            "1/2" "1/4" "ChunkStream nike_chunks None" example_body
            "Completion (Some ''{\"brand\":\"Nike\",\"condition\":\"New with tags\"}'')"]
    by blast
qed

subsection \<open>The checks before the analysis\<close>

lemma proceedToAnalyze_no_images:
  "images s = [] \<Longrightarrow>
   proceedToAnalyze env s = \<lparr>outcome = NoImages, after = s, requests = [], saved = []\<rparr>"
  by (simp add: proceedToAnalyze_def)

lemma proceedToAnalyze_enhancing:
  "images s \<noteq> [] \<Longrightarrow> anyEnhancing s \<Longrightarrow>
   proceedToAnalyze env s = \<lparr>outcome = EnhancementPending, after = s, requests = [], saved = []\<rparr>"
  by (simp add: proceedToAnalyze_def)

lemma proceedToAnalyze_no_key:
  "images s \<noteq> [] \<Longrightarrow> \<not> anyEnhancing s \<Longrightarrow> \<not> truthy_str (apiKey env) \<Longrightarrow>
   proceedToAnalyze env s =
     \<lparr>outcome = MissingCredential,
      after = s\<lparr>error := Some ''Please set your OpenAI API key in Settings first.''\<rparr>,
      requests = [], saved = []\<rparr>"
  by (simp add: proceedToAnalyze_def)

lemma proceedToAnalyze_started:
  assumes "images s \<noteq> []" and "\<not> anyEnhancing s" and "truthy_str (apiKey env)"
  shows "outcome (proceedToAnalyze env s) = NoValidImages
       \<or> (\<exists>m. outcome (proceedToAnalyze env s) = AnalysisFailed m)
       \<or> (\<exists>d. outcome (proceedToAnalyze env s) = Completed d)"
  using assms
  by (auto simp: proceedToAnalyze_def fail_analysis_def Let_def
           split: prod.splits sum.splits option.splits)

text \<open>
  Claim C3. \<^verbatim>\<open>proceedToAnalyze\<close> ends with \<open>EnhancementPending\<close> if and only if some image
  of the session is still enhancing. It ends with \<open>NoImages\<close> exactly when the list of images
  is empty, and with \<open>MissingCredential\<close> exactly when the list is not empty, no image is
  enhancing and no key is stored (the checks are made in this order). In all three cases no
  request is sent, nothing is stored, and the images and the step are left as they were.
\<close>

theorem proceedToAnalyze_preconditions:
  "(outcome (proceedToAnalyze env s) = EnhancementPending
      \<longleftrightarrow> (\<exists>img \<in> set (images s). enhancing img))
   \<and> (outcome (proceedToAnalyze env s) = NoImages \<longleftrightarrow> images s = [])
   \<and> (outcome (proceedToAnalyze env s) = MissingCredential
      \<longleftrightarrow> images s \<noteq> [] \<and> (\<forall>img \<in> set (images s). \<not> enhancing img)
          \<and> \<not> truthy_str (apiKey env))
   \<and> (outcome (proceedToAnalyze env s) \<in> {EnhancementPending, NoImages, MissingCredential}
      \<longrightarrow> requests (proceedToAnalyze env s) = [] \<and> saved (proceedToAnalyze env s) = []
          \<and> images (after (proceedToAnalyze env s)) = images s
          \<and> step (after (proceedToAnalyze env s)) = step s)"
proof -
  have e: "anyEnhancing s \<longleftrightarrow> (\<exists>img \<in> set (images s). enhancing img)"
    by (simp add: anyEnhancing_def list_ex_iff)
  consider (empty) "images s = []"
    | (pending) "images s \<noteq> []" "anyEnhancing s"
    | (nokey) "images s \<noteq> []" "\<not> anyEnhancing s" "\<not> truthy_str (apiKey env)"
    | (started) "images s \<noteq> []" "\<not> anyEnhancing s" "truthy_str (apiKey env)"
    by blast
  then show ?thesis
  proof cases
    case empty
    then show ?thesis
      by (simp add: proceedToAnalyze_no_images)
  next
    case pending
    then show ?thesis
      using e by (simp add: proceedToAnalyze_enhancing)
  next
    case nokey
    then show ?thesis
      using e by (simp add: proceedToAnalyze_no_key)
  next
    case started
    then show ?thesis
      using e proceedToAnalyze_started [OF started] by auto
  qed
qed

theorem proceedToAnalyze_preconditions_witness:
  "(\<exists>img \<in> set (images (example_session\<lparr>images := [example_image\<lparr>enhancing := True\<rparr>]\<rparr>)).
       enhancing img)
   \<and> outcome (proceedToAnalyze (example_env NoReader)
        (example_session\<lparr>images := [example_image\<lparr>enhancing := True\<rparr>]\<rparr>)) = EnhancementPending
   \<and> requests (proceedToAnalyze (example_env NoReader)
        (example_session\<lparr>images := [example_image\<lparr>enhancing := True\<rparr>]\<rparr>)) = []
   \<and> images initial_session = []
   \<and> outcome (proceedToAnalyze (example_env NoReader) initial_session) = NoImages
   \<and> requests (proceedToAnalyze (example_env NoReader) initial_session) = []
   \<and> images example_session \<noteq> [] \<and> \<not> list_ex enhancing (images example_session)
   \<and> \<not> truthy_str (apiKey ((example_env NoReader)\<lparr>apiKey := None\<rparr>))
   \<and> outcome (proceedToAnalyze ((example_env NoReader)\<lparr>apiKey := None\<rparr>) example_session)
       = MissingCredential
   \<and> requests (proceedToAnalyze ((example_env NoReader)\<lparr>apiKey := None\<rparr>) example_session) = []"
  using proceedToAnalyze_preconditions
      [of "example_env NoReader" "example_session\<lparr>images := [example_image\<lparr>enhancing := True\<rparr>]\<rparr>"]
    proceedToAnalyze_preconditions [of "example_env NoReader" initial_session]
    proceedToAnalyze_preconditions [of "(example_env NoReader)\<lparr>apiKey := None\<rparr>" example_session]
  by (simp add: example_session_def example_image_def initial_session_def example_env_def)

subsection \<open>The limit of five images\<close>

lemma length_mark_failed: "length (mark_failed ident imgs) = length imgs"
  by (simp add: mark_failed_def)

lemma length_images_begin:
  "length (images (addImageFromResult_begin cstep ident uri base64 s)) = Suc (length (images s))"
  by (simp add: addImageFromResult_begin_def Let_def length_mark_failed)

lemma length_images_settle:
  "length (images (addImageFromResult_settle ident b resp s)) = length (images s)"
  by (simp add: addImageFromResult_settle_def Let_def length_mark_failed
           split: enhance_response.splits option.splits)

lemma length_images_add:
  "length (images (addImageFromResult cstep ident uri base64 resp s)) = Suc (length (images s))"
  by (simp add: addImageFromResult_def Let_def length_images_begin length_images_settle
           split: option.splits)

lemma last_images_begin:
  "item_id (last (images (addImageFromResult_begin cstep ident uri base64 s))) = ident
   \<and> originalUri (last (images (addImageFromResult_begin cstep ident uri base64 s))) = uri"
  by (simp add: addImageFromResult_begin_def Let_def mark_failed_def)

lemma last_images_settle:
  "images s \<noteq> [] \<Longrightarrow>
   item_id (last (images (addImageFromResult_settle ident b resp s))) = item_id (last (images s))
   \<and> originalUri (last (images (addImageFromResult_settle ident b resp s))) = originalUri (last (images s))"
  by (simp add: addImageFromResult_settle_def Let_def mark_failed_def last_map
           split: enhance_response.splits option.splits)

lemma images_begin_nonempty: "images (addImageFromResult_begin cstep ident uri base64 s) \<noteq> []"
  using length_images_begin [of cstep ident uri base64 s] by auto

lemma last_images_add:
  "item_id (last (images (addImageFromResult cstep ident uri base64 resp s))) = ident
   \<and> originalUri (last (images (addImageFromResult cstep ident uri base64 resp s))) = uri"
  by (simp add: addImageFromResult_def Let_def last_images_begin
        last_images_settle [OF images_begin_nonempty] split: option.splits)

lemma length_images_add_assets:
  "length (images (add_assets cstep assets s)) = length (images s) + length assets"
  by (induction assets arbitrary: s) (auto simp: length_images_add)

text \<open>
  The limit is tested on entry to the two handlers. In a session that holds fewer than five
  images, \<^verbatim>\<open>capturePhoto\<close> (with the permission granted and a photo taken) adds the photo,
  and \<^verbatim>\<open>pickFromGallery\<close> (with a non-empty selection) adds every asset that the picker
  returns. In a session that holds five images (or more) both end with \<open>CapacityExceeded\<close>
  and return the session as it was.
\<close>

lemma add_image_entry_checks:
  "(length (images s) < 5 \<longrightarrow>
      fst (capturePhoto True (Captured uri base64) ident resp s) = Added
      \<and> length (images (snd (capturePhoto True (Captured uri base64) ident resp s)))
          = length (images s) + 1
      \<and> item_id (last (images (snd (capturePhoto True (Captured uri base64) ident resp s)))) = ident
      \<and> originalUri (last (images (snd (capturePhoto True (Captured uri base64) ident resp s)))) = uri)
   \<and> (5 \<le> length (images s) \<longrightarrow> capturePhoto granted cam ident resp s = (CapacityExceeded, s))
   \<and> (length (images s) < 5 \<and> assets \<noteq> [] \<longrightarrow>
        fst (pickFromGallery (Picked assets) s) = Added
        \<and> length (images (snd (pickFromGallery (Picked assets) s)))
            = length (images s) + length assets)
   \<and> (5 \<le> length (images s) \<longrightarrow> pickFromGallery gallery s = (CapacityExceeded, s))"
  by (simp add: capturePhoto_def pickFromGallery_def MAX_IMAGES_def Let_def
        length_images_add last_images_add length_images_add_assets)

text \<open>
  Claim C7 fails on the gallery. \<^verbatim>\<open>pickFromGallery\<close> passes the number of free places to the
  picker as \<^verbatim>\<open>selectionLimit\<close> and then adds every asset returned, without a test of its
  own. In a session that holds four images, a picker that returns two assets leaves six
  images in the session, one more than \<^verbatim>\<open>MAX_IMAGES\<close>; a further attempt is then refused and
  the session stays at six images.
\<close>

theorem pickFromGallery_exceeds_limit:
  "length (images four_image_session) = 4
   \<and> fst (pickFromGallery (Picked two_picked_assets) four_image_session) = Added
   \<and> length (images (snd (pickFromGallery (Picked two_picked_assets) four_image_session))) = 6
   \<and> MAX_IMAGES < length (images (snd (pickFromGallery (Picked two_picked_assets) four_image_session)))
   \<and> map item_id (images (snd (pickFromGallery (Picked two_picked_assets) four_image_session)))
       = [''img-1'', ''img-2'', ''img-3'', ''img-4'', ''img-5'', ''img-6'']
   \<and> capturePhoto True (Captured ''file:///g.jpg'' (Some ''R0dH'')) ''img-7'' EnhanceThrows
         (snd (pickFromGallery (Picked two_picked_assets) four_image_session))
       = (CapacityExceeded, snd (pickFromGallery (Picked two_picked_assets) four_image_session))"
proof -
  have l: "length (images four_image_session) = 4"
    by (simp add: four_image_session_def)
  have p: "pickFromGallery (Picked two_picked_assets) four_image_session
           = (Added, add_assets Review two_picked_assets four_image_session)"
    by (simp add: pickFromGallery_def MAX_IMAGES_def l two_picked_assets_def Let_def
          four_image_session_def)
  have "length two_picked_assets = 2"
    by (simp add: two_picked_assets_def)
  then have n: "length (images (add_assets Review two_picked_assets four_image_session)) = 6"
    by (simp add: length_images_add_assets l)
  have i: "map item_id (images (add_assets Review two_picked_assets four_image_session))
           = [''img-1'', ''img-2'', ''img-3'', ''img-4'', ''img-5'', ''img-6'']"
    by (simp add: two_picked_assets_def four_image_session_def example_image_def
          addImageFromResult_def addImageFromResult_begin_def addImageFromResult_settle_def
          mark_failed_def or_null_def Let_def)
  have c: "capturePhoto True (Captured ''file:///g.jpg'' (Some ''R0dH'')) ''img-7'' EnhanceThrows
             (add_assets Review two_picked_assets four_image_session)
           = (CapacityExceeded, add_assets Review two_picked_assets four_image_session)"
    by (simp add: capturePhoto_def MAX_IMAGES_def n)
  show ?thesis
    by (simp add: l p n i c MAX_IMAGES_def)
qed

subsection \<open>What is submitted for analysis\<close>

lemma originalImages_filter:
  "map Some (originalImages s) = filter truthy_str (map originalBase64 (images s))"
proof -
  have "map Some (concat (map (\<lambda>b. case b of Some t \<Rightarrow> (if t \<noteq> [] then [t] else []) | None \<Rightarrow> []) bs))
        = filter truthy_str bs" for bs :: "string option list"
    by (induction bs) (auto split: option.splits)
  then show ?thesis
    unfolding originalImages_def .
qed

lemma proceedToAnalyze_requests:
  "requests (proceedToAnalyze env s) = [] \<or> requests (proceedToAnalyze env s) = [request_of env s]"
  by (auto simp: proceedToAnalyze_def fail_analysis_def request_of_def Let_def
           split: prod.splits sum.splits option.splits)

lemma proceedToAnalyze_images:
  "images (after (proceedToAnalyze env s)) = images s"
  by (auto simp: proceedToAnalyze_def fail_analysis_def Let_def
           split: prod.splits sum.splits option.splits)

lemma proceedToAnalyze_requests_cong:
  assumes "map originalBase64 (images s') = map originalBase64 (images s)"
    and "map enhancing (images s') = map enhancing (images s)"
  shows "requests (proceedToAnalyze env s') = requests (proceedToAnalyze env s)"
proof -
  have o: "originalImages s' = originalImages s"
    using assms(1) by (simp add: originalImages_def)
  have "list_ex enhancing (images s') = list_ex id (map enhancing (images s'))"
    by (simp add: list_ex_iff)
  also have "\<dots> = list_ex enhancing (images s)"
    unfolding assms(2) by (simp add: list_ex_iff)
  finally have a: "anyEnhancing s' = anyEnhancing s"
    by (simp add: anyEnhancing_def)
  have n: "images s' = [] \<longleftrightarrow> images s = []"
    using assms(2) by (metis map_is_Nil_conv)
  show ?thesis
    by (auto simp: proceedToAnalyze_def fail_analysis_def Let_def o a n
             split: prod.splits sum.splits option.splits)
qed

lemma proceedToAnalyze_draft:
  assumes "outcome (proceedToAnalyze env s) = Completed d"
  shows "\<exists>fr txt. receive env (fetch env (request_of env s)) = (Inr fr, txt) \<and> build_draft env s fr = Inr d
         \<and> saved (proceedToAnalyze env s) = [d]"
  using assms
  by (auto simp: proceedToAnalyze_def fail_analysis_def request_of_def Let_def
           split: if_splits prod.splits sum.splits option.splits)

lemma build_draft_flags:
  assumes "build_draft env s fr = Inr d" and "build_draft env (s\<lparr>useEnhanced := flags\<rparr>) fr = Inr d'"
  shows "d' = d\<lparr>draft_imageUri := draft_imageUri d', draft_imageUris := draft_imageUris d'\<rparr>"
  using assms by (auto simp: build_draft_def split: list.splits)

lemma build_draft_imageUris:
  assumes "build_draft env s fr = Inr d"
  shows "draft_imageUris d = map (chosen_uri (useEnhanced s)) (images s)"
  using assms by (auto simp: build_draft_def split: list.splits)

text \<open>
  Claim C5. The only request that \<^verbatim>\<open>proceedToAnalyze\<close> can send carries, in the order of
  the session, exactly the non-empty \<^verbatim>\<open>originalBase64\<close> values of the images. The requests
  do not change when the selection flags are replaced, nor when the enhanced bytes and
  enhanced references of the images are replaced. The flags decide the image references of
  the draft: two completed runs that differ only in the flags give drafts that agree in
  every field other than \<open>imageUri\<close> and \<open>imageUris\<close>.
\<close>

theorem analysis_submits_original_bytes:
  "(requests (proceedToAnalyze env s) = [] \<or> requests (proceedToAnalyze env s) = [request_of env s])
   \<and> body_images (request_of env s) = Some (originalImages s)
   \<and> map Some (originalImages s) = filter truthy_str (map originalBase64 (images s))
   \<and> requests (proceedToAnalyze env (s\<lparr>useEnhanced := flags\<rparr>)) = requests (proceedToAnalyze env s)
   \<and> requests (proceedToAnalyze env
        (s\<lparr>images := map (\<lambda>img. img\<lparr>enhancedBase64 := eb img, enhancedUri := eu img\<rparr>) (images s)\<rparr>))
       = requests (proceedToAnalyze env s)
   \<and> (\<forall>d. outcome (proceedToAnalyze env s) = Completed d
         \<longrightarrow> draft_imageUris d = map (chosen_uri (useEnhanced s)) (images s))
   \<and> (\<forall>d d'. outcome (proceedToAnalyze env s) = Completed d
           \<and> outcome (proceedToAnalyze env (s\<lparr>useEnhanced := flags\<rparr>)) = Completed d'
         \<longrightarrow> d' = d\<lparr>draft_imageUri := draft_imageUri d', draft_imageUris := draft_imageUris d'\<rparr>)"
proof (intro conjI allI impI)
  show "requests (proceedToAnalyze env s) = [] \<or> requests (proceedToAnalyze env s) = [request_of env s]"
    by (rule proceedToAnalyze_requests)
  show "body_images (request_of env s) = Some (originalImages s)"
    by (simp add: request_of_def)
  show "map Some (originalImages s) = filter truthy_str (map originalBase64 (images s))"
    by (rule originalImages_filter)
  show "requests (proceedToAnalyze env (s\<lparr>useEnhanced := flags\<rparr>)) = requests (proceedToAnalyze env s)"
    by (rule proceedToAnalyze_requests_cong) simp_all
  show "requests (proceedToAnalyze env
        (s\<lparr>images := map (\<lambda>img. img\<lparr>enhancedBase64 := eb img, enhancedUri := eu img\<rparr>) (images s)\<rparr>))
       = requests (proceedToAnalyze env s)"
    by (rule proceedToAnalyze_requests_cong) (simp_all add: comp_def)
next
  fix d
  assume "outcome (proceedToAnalyze env s) = Completed d"
  then show "draft_imageUris d = map (chosen_uri (useEnhanced s)) (images s)"
    using proceedToAnalyze_draft build_draft_imageUris by blast
next
  fix d d'
  assume a: "outcome (proceedToAnalyze env s) = Completed d
           \<and> outcome (proceedToAnalyze env (s\<lparr>useEnhanced := flags\<rparr>)) = Completed d'"
  have r: "request_of env (s\<lparr>useEnhanced := flags\<rparr>) = request_of env s"
    by (simp add: request_of_def originalImages_def)
  obtain fr tx where 1: "receive env (fetch env (request_of env s)) = (Inr fr, tx)"
      and 2: "build_draft env s fr = Inr d"
    using a proceedToAnalyze_draft by blast
  obtain fr' tx' where 3: "receive env (fetch env (request_of env s)) = (Inr fr', tx')"
      and 4: "build_draft env (s\<lparr>useEnhanced := flags\<rparr>) fr' = Inr d'"
    using a proceedToAnalyze_draft [of env "s\<lparr>useEnhanced := flags\<rparr>" d'] r by auto
  have "fr' = fr"
    using 1 3 by simp
  then show "d' = d\<lparr>draft_imageUri := draft_imageUri d', draft_imageUris := draft_imageUris d'\<rparr>"
    using 2 4 build_draft_flags by blast
qed

theorem analysis_submits_original_bytes_witness:
  "outcome (proceedToAnalyze (example_env (Body (example_chunks nike_stream) None)) example_session)
     = Completed nike_draft
   \<and> requests (proceedToAnalyze (example_env (Body (example_chunks nike_stream) None)) example_session)
       = [example_body]
   \<and> body_images example_body = Some [''QUJD'']
   \<and> originalBase64 example_image = Some ''QUJD'' \<and> enhancedBase64 example_image = Some ''RUZH''
   \<and> requests (proceedToAnalyze (example_env (Body (example_chunks nike_stream) None))
         (example_session\<lparr>useEnhanced := [(''img-1'', False)]\<rparr>)) = [example_body]
   \<and> draft_imageUris nike_draft = map (chosen_uri (useEnhanced example_session)) (images example_session)"
proof -
  have a: "outcome (proceedToAnalyze (example_env (Body (example_chunks nike_stream) None)) example_session)
             = Completed nike_draft"
    and b: "requests (proceedToAnalyze (example_env (Body (example_chunks nike_stream) None)) example_session)
             = [example_body]"
    by (simp_all add: proceedToAnalyze_nike)
  show ?thesis
    using a b
      analysis_submits_original_bytes
        [of "example_env (Body (example_chunks nike_stream) None)" example_session
            "[(''img-1'', False)]"]
    by (simp add: example_body_def example_image_def example_session_def originalImages_def)
qed

subsection \<open>Failures of a started analysis\<close>

lemma originalImages_all_null:
  "\<forall>img \<in> set (images s). originalBase64 img = None \<Longrightarrow> originalImages s = []"
  by (simp add: originalImages_def)

lemma proceedToAnalyze_no_valid_images:
  assumes "images s \<noteq> []" and "\<not> anyEnhancing s" and "truthy_str (apiKey env)"
    and "originalImages s = []"
  shows "proceedToAnalyze env s =
           \<lparr>outcome = NoValidImages,
            after = s\<lparr>step := Review, error := Some ''No valid images to analyze.'',
                      streamingText := []\<rparr>,
            requests = [], saved = []\<rparr>"
  using assms by (simp add: proceedToAnalyze_def Let_def)

lemma proceedToAnalyze_receive_fails:
  assumes "images s \<noteq> []" and "\<not> anyEnhancing s" and "truthy_str (apiKey env)"
    and "originalImages s \<noteq> []"
    and "receive env (fetch env (request_of env s)) = (Inl err, tx)"
  shows "proceedToAnalyze env s =
           \<lparr>outcome = AnalysisFailed (message err),
            after = s\<lparr>step := Review, error := Some (display_message err), streamingText := tx\<rparr>,
            requests = [request_of env s], saved = []\<rparr>"
  using assms by (simp add: proceedToAnalyze_def fail_analysis_def request_of_def Let_def)

subsection \<open>A session whose images have no bytes\<close>

text \<open>
  The invariant holds in the initial session and is kept by every handler of the model: an
  image is marked as enhancing only when it is created with bytes, and the mark is only
  ever taken away afterwards.
\<close>

lemma bytes_when_enhancing_begin:
  "bytes_when_enhancing s \<Longrightarrow> bytes_when_enhancing (addImageFromResult_begin cstep ident uri base64 s)"
  by (auto simp: bytes_when_enhancing_def addImageFromResult_begin_def mark_failed_def Let_def
        list_all_iff)

lemma bytes_when_enhancing_settle:
  "bytes_when_enhancing s \<Longrightarrow> bytes_when_enhancing (addImageFromResult_settle ident b resp s)"
  by (auto simp: bytes_when_enhancing_def addImageFromResult_settle_def mark_failed_def Let_def
        list_all_iff split: enhance_response.splits option.splits)

lemma bytes_when_enhancing_add:
  "bytes_when_enhancing s \<Longrightarrow> bytes_when_enhancing (addImageFromResult cstep ident uri base64 resp s)"
  by (simp add: addImageFromResult_def Let_def bytes_when_enhancing_begin
        bytes_when_enhancing_settle split: option.splits)

lemma bytes_when_enhancing_assets:
  "bytes_when_enhancing s \<Longrightarrow> bytes_when_enhancing (add_assets cstep assets s)"
  by (induction assets arbitrary: s) (auto simp: bytes_when_enhancing_add)

lemma bytes_when_enhancing_step:
  "bytes_when_enhancing s \<Longrightarrow> bytes_when_enhancing (s\<lparr>step := st\<rparr>)"
  by (simp add: bytes_when_enhancing_def)

lemma bytes_when_enhancing_handlers:
  assumes "bytes_when_enhancing s"
  shows "bytes_when_enhancing (snd (capturePhoto granted cam ident resp s))"
    and "bytes_when_enhancing (snd (pickFromGallery gallery s))"
    and "bytes_when_enhancing (after (proceedToAnalyze env s))"
proof -
  show "bytes_when_enhancing (snd (capturePhoto granted cam ident resp s))"
    using assms
    by (simp add: capturePhoto_def Let_def bytes_when_enhancing_add bytes_when_enhancing_step
          split: camera_result.splits)
  show "bytes_when_enhancing (snd (pickFromGallery gallery s))"
    using assms
    by (simp add: pickFromGallery_def Let_def bytes_when_enhancing_assets
          bytes_when_enhancing_step split: gallery_result.splits)
  show "bytes_when_enhancing (after (proceedToAnalyze env s))"
    using assms by (simp add: bytes_when_enhancing_def proceedToAnalyze_images)
qed

lemma bytes_when_enhancing_initial: "bytes_when_enhancing initial_session"
  by (simp add: bytes_when_enhancing_def initial_session_def)

lemma no_bytes_not_enhancing:
  assumes "bytes_when_enhancing s" and "\<forall>img \<in> set (images s). originalBase64 img = None"
  shows "\<not> anyEnhancing s"
  using assms by (auto simp: bytes_when_enhancing_def anyEnhancing_def list_all_iff list_ex_iff)

text \<open>
  Claim C10 as stated does not hold: the test of the key comes first. In a session whose
  only image has no original bytes, with no key stored, \<^verbatim>\<open>proceedToAnalyze\<close> ends at that
  test with the message \<^verbatim>\<open>Please set your OpenAI API key in Settings first.\<close>, which is the
  return \<open>MissingCredential\<close>, and the step stays review.
\<close>

theorem no_valid_images_without_key_counterexample:
  "images bytes_missing_session \<noteq> []
   \<and> map originalBase64 (images bytes_missing_session) = [None]
   \<and> apiKey ((example_env NoReader)\<lparr>apiKey := None\<rparr>) = None
   \<and> outcome (proceedToAnalyze ((example_env NoReader)\<lparr>apiKey := None\<rparr>) bytes_missing_session)
       = MissingCredential
   \<and> error (after (proceedToAnalyze ((example_env NoReader)\<lparr>apiKey := None\<rparr>)
         bytes_missing_session))
       = Some ''Please set your OpenAI API key in Settings first.''
   \<and> requests (proceedToAnalyze ((example_env NoReader)\<lparr>apiKey := None\<rparr>) bytes_missing_session)
       = []"
  by (simp add: proceedToAnalyze_def bytes_missing_session_def anyEnhancing_def Let_def)

text \<open>
  Claim C10, amended with the stored key. In a session that is not empty and in which every
  image has no original bytes (the session satisfying the invariant above), with a key
  stored, \<^verbatim>\<open>proceedToAnalyze\<close> ends with the message \<^verbatim>\<open>No valid images to analyze.\<close>, the
  step is review again, and no request has been sent; this is none of the returns
  \<open>NoImages\<close>, \<open>EnhancementPending\<close>, \<open>MissingCredential\<close> and not a failure of the network.
  In general a request carries only the images that have bytes, while the images of the
  session stay as they are and a completed run stores a draft with one image reference for
  every image of the session.
\<close>

theorem no_valid_images_failure:
  "(images s \<noteq> [] \<and> (\<forall>img \<in> set (images s). originalBase64 img = None)
      \<and> bytes_when_enhancing s \<and> truthy_str (apiKey env)
    \<longrightarrow> outcome (proceedToAnalyze env s) = NoValidImages
        \<and> error (after (proceedToAnalyze env s)) = Some ''No valid images to analyze.''
        \<and> step (after (proceedToAnalyze env s)) = Review
        \<and> requests (proceedToAnalyze env s) = []
        \<and> saved (proceedToAnalyze env s) = [])
   \<and> (\<forall>body \<in> set (requests (proceedToAnalyze env s)). body_images body = Some (originalImages s))
   \<and> map Some (originalImages s) = filter truthy_str (map originalBase64 (images s))
   \<and> images (after (proceedToAnalyze env s)) = images s
   \<and> (\<forall>d. outcome (proceedToAnalyze env s) = Completed d
         \<longrightarrow> saved (proceedToAnalyze env s) = [d]
             \<and> draft_imageUris d = map (chosen_uri (useEnhanced s)) (images s))"
proof (intro conjI allI ballI impI)
  fix body
  assume "body \<in> set (requests (proceedToAnalyze env s))"
  then show "body_images body = Some (originalImages s)"
    using proceedToAnalyze_requests [of env s] by (auto simp: request_of_def)
next
  show "map Some (originalImages s) = filter truthy_str (map originalBase64 (images s))"
    by (rule originalImages_filter)
  show "images (after (proceedToAnalyze env s)) = images s"
    by (rule proceedToAnalyze_images)
next
  fix d
  assume d: "outcome (proceedToAnalyze env s) = Completed d"
  show "saved (proceedToAnalyze env s) = [d]"
    using proceedToAnalyze_draft [OF d] by blast
  show "draft_imageUris d = map (chosen_uri (useEnhanced s)) (images s)"
    using proceedToAnalyze_draft [OF d] build_draft_imageUris by blast
next
  assume a: "images s \<noteq> [] \<and> (\<forall>img \<in> set (images s). originalBase64 img = None)
      \<and> bytes_when_enhancing s \<and> truthy_str (apiKey env)"
  then have e: "\<not> anyEnhancing s"
    using no_bytes_not_enhancing by blast
  have o: "originalImages s = []"
    using a by (simp add: originalImages_all_null)
  note r = proceedToAnalyze_no_valid_images [of s env, OF _ e _ o]
  show "outcome (proceedToAnalyze env s) = NoValidImages"
    and "error (after (proceedToAnalyze env s)) = Some ''No valid images to analyze.''"
    and "step (after (proceedToAnalyze env s)) = Review"
    and "requests (proceedToAnalyze env s) = []"
    and "saved (proceedToAnalyze env s) = []"
    using a by (simp_all add: r)
qed

theorem no_valid_images_failure_witness:
  "images bytes_missing_session \<noteq> []
   \<and> list_all (\<lambda>img. originalBase64 img = None) (images bytes_missing_session)
   \<and> bytes_when_enhancing bytes_missing_session
   \<and> truthy_str (apiKey (example_env NoReader))
   \<and> outcome (proceedToAnalyze (example_env NoReader) bytes_missing_session) = NoValidImages
   \<and> error (after (proceedToAnalyze (example_env NoReader) bytes_missing_session))
       = Some ''No valid images to analyze.''
   \<and> step (after (proceedToAnalyze (example_env NoReader) bytes_missing_session)) = Review
   \<and> requests (proceedToAnalyze (example_env NoReader) bytes_missing_session) = []
   \<and> images (after (proceedToAnalyze (example_env NoReader) bytes_missing_session))
       = images bytes_missing_session"
  using no_valid_images_failure [of bytes_missing_session "example_env NoReader"]
  by (simp add: bytes_missing_session_def example_env_def bytes_when_enhancing_def)

subsection \<open>A response that is not JSON\<close>

text \<open>
  Claim C4. Take a run that passes the checks and whose request is answered by the
  streaming endpoint, the service having streamed a text that \<^verbatim>\<open>JSON.parse\<close> rejects after
  the cleaning; the body received is the text written by the handler, cut into chunks in
  any way, and \<^verbatim>\<open>JSON.parse\<close> inverts \<^verbatim>\<open>JSON.stringify\<close> on the events written. Then the
  handler ends the stream with the error event \<^verbatim>\<open>Failed to parse AI response\<close> and sends
  no result; the run fails with that message, the step is review, the error shown is that
  message, and the images, the selection flags and the stored result are unchanged; no
  draft is stored.
\<close>

theorem malformed_response_fails_run:
  assumes "\<not> anyEnhancing s"
    and "analyze_stream parse r1 r2 (ChunkStream chunks None) (request_of env s) = EventStream evs"
    and "parse (clean_content (fullContent chunks)) = None"
    and "fetch env (request_of env s) = Body body None"
    and "concat body = concat (map (sse_text stringify) evs)"
    and "\<forall>e \<in> set evs. CHR 0x0A \<notin> set (stringify e)
           \<and> jsonParse env (stringify e) = Some (ParsedEvent e)"
  shows "evs = map delta_event (deltas chunks) @ [error_event ''Failed to parse AI response'']
       \<and> outcome (proceedToAnalyze env s) = AnalysisFailed ''Failed to parse AI response''
       \<and> step (after (proceedToAnalyze env s)) = Review
       \<and> error (after (proceedToAnalyze env s)) = Some ''Failed to parse AI response''
       \<and> images (after (proceedToAnalyze env s)) = images s
       \<and> useEnhanced (after (proceedToAnalyze env s)) = useEnhanced s
       \<and> result (after (proceedToAnalyze env s)) = result s
       \<and> saved (proceedToAnalyze env s) = []"
proof -
  have full: "fullContent chunks = concat (deltas chunks)"
    by (simp add: fullContent_def consume_chunks_eq)
  have pre: "originalImages s \<noteq> []" "truthy_str (apiKey env)"
    using assms(2) by (auto simp: analyze_stream_def request_of_def Let_def split: if_splits)
  then have ne: "images s \<noteq> []"
    by (auto simp: originalImages_def)
  have evs: "evs = map delta_event (deltas chunks) @ [error_event ''Failed to parse AI response'']"
    using assms(2) assms(3) pre
    by (simp add: analyze_stream_def request_of_def Let_def consume_chunks_eq full)
  have m: "''Failed to parse AI response'' \<noteq> []"
    "\<not> str_includes ''Failed to parse AI response'' ''JSON''"
    "\<not> str_includes ''Failed to parse AI response'' '':''"
    by simp_all
  have got: "received_events env body = map ParsedEvent evs"
    using assms(6) assms(5) by (rule wire_events)
  have "process_events env (map ParsedEvent evs) ([], None)
        = Inl (Error ''Failed to parse AI response'', concat (deltas chunks))"
    unfolding evs map_append
    using process_events_deltas
        [of env "deltas chunks" "map ParsedEvent [error_event ''Failed to parse AI response'']" "[]" None]
      process_events_error_event [OF m(1) m(2), of env "concat (deltas chunks)" None]
    by simp
  then have rcv: "receive env (fetch env (request_of env s))
             = (Inl (Error ''Failed to parse AI response''), concat (deltas chunks))"
    unfolding assms(4) receive_events got by simp
  have d: "display_message (Error ''Failed to parse AI response'') = ''Failed to parse AI response''"
    by (rule display_message_plain [OF m(1) m(3)])
  show ?thesis
    using evs d
    by (simp add: proceedToAnalyze_receive_fails [OF ne assms(1) pre(2) pre(1) rcv] Error_def)
qed

lemma request_of_example:
  "request_of (example_env r) example_session = example_body"
  by (simp add: request_of_def example_env_def example_session_def example_image_def
        originalImages_def example_body_def)

lemma analyze_stream_refusal:
  "analyze_stream example_parse (1/2) (1/4) (ChunkStream refusal_chunks None) example_body
     = EventStream refusal_stream"
  by (simp add: analyze_stream_def example_body_def refusal_chunks_def refusal_stream_def
        clean_content_def trim_def white_space_def example_parse_def Let_def)

theorem malformed_response_fails_run_witness:
  "\<not> anyEnhancing example_session
   \<and> analyze_stream example_parse (1/2) (1/4) (ChunkStream refusal_chunks None)
         (request_of (example_env (Body refusal_body None)) example_session)
       = EventStream refusal_stream
   \<and> example_parse (clean_content (fullContent refusal_chunks)) = None
   \<and> fetch (example_env (Body refusal_body None))
         (request_of (example_env (Body refusal_body None)) example_session)
       = Body refusal_body None
   \<and> concat refusal_body = concat (map (sse_text example_stringify) refusal_stream)
   \<and> list_all (\<lambda>e. CHR 0x0A \<notin> set (example_stringify e)
                    \<and> jsonParse (example_env (Body refusal_body None)) (example_stringify e)
                        = Some (ParsedEvent e))
         refusal_stream
   \<and> outcome (proceedToAnalyze (example_env (Body refusal_body None)) example_session)
       = AnalysisFailed ''Failed to parse AI response''
   \<and> step (after (proceedToAnalyze (example_env (Body refusal_body None)) example_session)) = Review
   \<and> error (after (proceedToAnalyze (example_env (Body refusal_body None)) example_session))
       = Some ''Failed to parse AI response''
   \<and> images (after (proceedToAnalyze (example_env (Body refusal_body None)) example_session))
       = images example_session"
proof -
  have a: "\<not> anyEnhancing example_session"
    by (simp add: anyEnhancing_def example_session_def example_image_def)
  have b: "analyze_stream example_parse (1/2) (1/4) (ChunkStream refusal_chunks None)
         (request_of (example_env (Body refusal_body None)) example_session)
       = EventStream refusal_stream"
    by (simp add: request_of_example analyze_stream_refusal)
  have c: "example_parse (clean_content (fullContent refusal_chunks)) = None"
    by (simp add: fullContent_def consume_chunks_eq deltas_def refusal_chunks_def
          clean_content_def trim_def white_space_def example_parse_def)
  have d: "fetch (example_env (Body refusal_body None))
         (request_of (example_env (Body refusal_body None)) example_session)
       = Body refusal_body None"
    by (simp add: example_env_simps)
  have e: "concat refusal_body = concat (map (sse_text example_stringify) refusal_stream)"
    by (simp add: refusal_body_def example_chunks_def)
  have "set refusal_stream \<subseteq> set (map snd example_wire)"
    by (simp add: refusal_stream_def example_wire_def delta_event_def error_event_def)
  then have f: "\<forall>e \<in> set refusal_stream. CHR 0x0A \<notin> set (example_stringify e)
          \<and> jsonParse (example_env (Body refusal_body None)) (example_stringify e)
              = Some (ParsedEvent e)"
    using example_roundtrip by (auto simp: example_env_simps)
  show ?thesis
    using a b c d e f malformed_response_fails_run [OF a b c d e f]
    by (simp add: list_all_iff)
qed

subsection \<open>A stream that ends without a result\<close>

lemma received_nike_delta_events:
  "received_events (example_env r) (example_chunks nike_delta_events)
     = map ParsedEvent nike_delta_events"
  by (rule received_example_chunks) (simp add: nike_delta_events_def example_wire_def)

lemma proceedToAnalyze_nike_deltas:
  "proceedToAnalyze (example_env (Body (example_chunks nike_delta_events) None)) example_session
     = \<lparr>outcome = AnalysisFailed ''No result received from AI'',
        after = example_session\<lparr>error := Some ''No result received from AI'',
                  streamingText := ''{\"brand\":\"Nike\"}''\<rparr>,
        requests = [example_body], saved = []\<rparr>"
proof -
  have r: "receive (example_env (Body (example_chunks nike_delta_events) None))
             (Body (example_chunks nike_delta_events) None)
           = (Inl (Error ''No result received from AI''), ''{\"brand\":\"Nike\"}'')"
    unfolding receive_events received_nike_delta_events
    by (simp add: nike_delta_events_def process_parsed_def process_event_def inner_catch_def
          handle_data_def)
  show ?thesis
    by (simp add: proceedToAnalyze_def fail_analysis_def example_env_simps r Let_def)
       (simp add: example_session_def example_image_def anyEnhancing_def originalImages_def
          example_body_def display_message_def Error_def)
qed

text \<open>
  Claim C1 as stated does not hold. On a body with the events \<^verbatim>\<open>{delta:"{\"brand\":"}\<close>,
  \<^verbatim>\<open>{delta:"\"Nike\"}"}\<close>, \<^verbatim>\<open>{done:true}\<close> the deltas concatenate to an object with brand
  Nike, but the run fails with \<^verbatim>\<open>No result received from AI\<close> and builds no draft.
\<close>

theorem deltas_without_result_counterexample:
  "received_events (example_env (Body (example_chunks nike_delta_events) None))
       (example_chunks nike_delta_events)
     = map ParsedEvent nike_delta_events
   \<and> concat (event_deltas (map ParsedEvent nike_delta_events)) = ''{\"brand\":\"Nike\"}''
   \<and> outcome (proceedToAnalyze (example_env (Body (example_chunks nike_delta_events) None))
         example_session) = AnalysisFailed ''No result received from AI''
   \<and> result (after (proceedToAnalyze (example_env (Body (example_chunks nike_delta_events) None))
         example_session)) = None
   \<and> saved (proceedToAnalyze (example_env (Body (example_chunks nike_delta_events) None))
         example_session) = []"
proof -
  have "concat (event_deltas (map ParsedEvent nike_delta_events)) = ''{\"brand\":\"Nike\"}''"
    by (simp add: event_deltas_def nike_delta_events_def)
  moreover have "result example_session = None"
    by (simp add: example_session_def)
  ultimately show ?thesis
    by (simp add: proceedToAnalyze_nike_deltas received_nike_delta_events)
qed

text \<open>
  Claim C1, amended. \<^verbatim>\<open>proceedToAnalyze\<close> takes the structured result only from the
  \<^verbatim>\<open>result\<close> of an event with \<^verbatim>\<open>done: true\<close>. When the body of the response ends and every
  value parsed from a data line is an event object (not \<^verbatim>\<open>null\<close>) that carries neither an
  error nor, with \<^verbatim>\<open>done\<close>, a result, the deltas, concatenated in the order of arrival, are
  the streaming text on display and nothing more: the run fails with
  \<^verbatim>\<open>No result received from AI\<close>, the step is review, and no draft is built or stored.
\<close>

theorem result_only_from_terminal_event:
  assumes "images s \<noteq> []" and "\<not> anyEnhancing s" and "truthy_str (apiKey env)"
    and "originalImages s \<noteq> []"
    and "fetch env (request_of env s) = Body chunks None"
    and "\<forall>p \<in> set (received_events env chunks).
           \<exists>d. p = ParsedEvent d \<and> \<not> truthy_str (ev_error d)
               \<and> \<not> (ev_done d \<and> (\<exists>r. ev_result d = Some r \<and> truthy r))"
  shows "outcome (proceedToAnalyze env s) = AnalysisFailed ''No result received from AI''
       \<and> streamingText (after (proceedToAnalyze env s))
           = concat (event_deltas (received_events env chunks))
       \<and> step (after (proceedToAnalyze env s)) = Review
       \<and> error (after (proceedToAnalyze env s)) = Some ''No result received from AI''
       \<and> result (after (proceedToAnalyze env s)) = result s
       \<and> requests (proceedToAnalyze env s) = [request_of env s]
       \<and> saved (proceedToAnalyze env s) = []"
proof -
  have rcv: "receive env (fetch env (request_of env s))
             = (Inl (Error ''No result received from AI''),
                concat (event_deltas (received_events env chunks)))"
    unfolding assms(5) receive_events
    using process_events_no_result [OF assms(6), of env "[]" None]
    by simp
  have d: "display_message (Error ''No result received from AI'') = ''No result received from AI''"
    by (rule display_message_plain) simp_all
  show ?thesis
    using d
    by (simp add: proceedToAnalyze_receive_fails [OF assms(1) assms(2) assms(3) assms(4) rcv]
          Error_def)
qed

theorem result_only_from_terminal_event_witness:
  "images example_session \<noteq> [] \<and> \<not> anyEnhancing example_session
   \<and> truthy_str (apiKey (example_env (Body (example_chunks nike_delta_events) None)))
   \<and> originalImages example_session \<noteq> []
   \<and> fetch (example_env (Body (example_chunks nike_delta_events) None))
         (request_of (example_env (Body (example_chunks nike_delta_events) None)) example_session)
       = Body (example_chunks nike_delta_events) None
   \<and> received_events (example_env (Body (example_chunks nike_delta_events) None))
         (example_chunks nike_delta_events) = map ParsedEvent nike_delta_events
   \<and> list_all (\<lambda>d. ev_error d = None \<and> ev_result d = None) nike_delta_events
   \<and> outcome (proceedToAnalyze (example_env (Body (example_chunks nike_delta_events) None))
         example_session) = AnalysisFailed ''No result received from AI''
   \<and> streamingText (after (proceedToAnalyze (example_env (Body (example_chunks nike_delta_events) None))
         example_session)) = concat (event_deltas (map ParsedEvent nike_delta_events))"
proof -
  have a: "images example_session \<noteq> []" and b: "\<not> anyEnhancing example_session"
    and o: "originalImages example_session \<noteq> []"
    by (simp_all add: example_session_def example_image_def anyEnhancing_def originalImages_def)
  have c: "truthy_str (apiKey (example_env (Body (example_chunks nike_delta_events) None)))"
    by (simp add: example_env_simps)
  have d: "fetch (example_env (Body (example_chunks nike_delta_events) None))
         (request_of (example_env (Body (example_chunks nike_delta_events) None)) example_session)
       = Body (example_chunks nike_delta_events) None"
    by (simp add: example_env_simps)
  have g: "received_events (example_env (Body (example_chunks nike_delta_events) None))
         (example_chunks nike_delta_events) = map ParsedEvent nike_delta_events"
    by (rule received_nike_delta_events)
  have f: "list_all (\<lambda>d. ev_error d = None \<and> ev_result d = None) nike_delta_events"
    by (simp add: nike_delta_events_def)
  have e: "\<forall>p \<in> set (received_events
               (example_env (Body (example_chunks nike_delta_events) None))
               (example_chunks nike_delta_events)).
           \<exists>d. p = ParsedEvent d \<and> \<not> truthy_str (ev_error d)
               \<and> \<not> (ev_done d \<and> (\<exists>r. ev_result d = Some r \<and> truthy r))"
    unfolding g using f by (auto simp: list_all_iff)
  show ?thesis
    using a b c o d f g result_only_from_terminal_event [OF a b c o d e]
    by simp
qed

text \<open>
  The restriction to event objects is needed. A data line that carries \<^verbatim>\<open>null\<close> is parsed,
  and the read of \<^verbatim>\<open>data.error\<close> throws a \<^verbatim>\<open>TypeError\<close>; its message has no \<^verbatim>\<open>JSON\<close> in
  it, so the \<^verbatim>\<open>catch\<close> throws it on and the run fails with that message.
\<close>

lemma received_null_body:
  "received_events (example_env r) null_body = [ParsedNull]"
  by (simp add: received_events_def null_body_def events_of_def example_env_simps
        example_parse_event_def)

lemma proceedToAnalyze_null_line:
  "proceedToAnalyze (example_env (Body null_body None)) example_session
     = \<lparr>outcome = AnalysisFailed ''Cannot read property 'error' of null'',
        after = example_session\<lparr>error := Some ''Cannot read property 'error' of null''\<rparr>,
        requests = [example_body], saved = []\<rparr>"
proof -
  have r: "receive (example_env (Body null_body None)) (Body null_body None)
           = (Inl (Error ''Cannot read property 'error' of null''), [])"
    unfolding receive_events received_null_body
    by (simp add: process_parsed_def inner_catch_def example_env_simps Error_def)
  show ?thesis
    by (simp add: proceedToAnalyze_def fail_analysis_def example_env_simps r Let_def)
       (simp add: example_session_def example_image_def anyEnhancing_def originalImages_def
          example_body_def display_message_def Error_def)
qed

subsection \<open>The selection flag of a failed image\<close>

text \<open>
  When the enhancement request fails, the \<^verbatim>\<open>catch\<close> block of \<^verbatim>\<open>addImageFromResult\<close> sets
  the selection flag of the image to false.
\<close>

lemma settle_failure_clears_flag:
  "map_of (useEnhanced (addImageFromResult_settle ident b EnhanceThrows s)) ident = Some False"
  by (simp add: addImageFromResult_settle_def Let_def AList.update_conv')

text \<open>
  Claim C6 fails on the other path to the failed state. A photo that arrives without bytes
  is marked \<^verbatim>\<open>enhanceFailed\<close> by the early return of \<^verbatim>\<open>addImageFromResult\<close>, which leaves
  the flag at the value true that it was given when the image was added.
\<close>

theorem null_bytes_image_keeps_flag:
  "capturePhoto True (Captured ''file:///a.jpg'' None) ''img-1'' EnhanceThrows initial_session
     = (Added, bytes_missing_session)
   \<and> list_all enhanceFailed (images bytes_missing_session)
   \<and> map_of (useEnhanced bytes_missing_session) ''img-1'' = Some True"
  by (simp add: capturePhoto_def addImageFromResult_def addImageFromResult_begin_def
        mark_failed_def or_null_def initial_session_def bytes_missing_session_def
        MAX_IMAGES_def Let_def)

end
